theory Spec2Isabelle
  imports Complex_Main
begin

section \<open>Window labels\<close>

text \<open>
  \<^verbatim>\<open>str(n)\<close> of a Python integer: the decimal digits, most significant first, with a
  leading minus sign for a negative number.
\<close>

definition digit_char :: "nat \<Rightarrow> char" where
  "digit_char d = ''0123456789'' ! d"

fun str_nat :: "nat \<Rightarrow> string" where
  "str_nat n = (if n < 10 then [digit_char n] else str_nat (n div 10) @ [digit_char (n mod 10)])"

declare str_nat.simps [simp del]

definition str_int :: "int \<Rightarrow> string" where
  "str_int i = (if i < 0 then CHR ''-'' # str_nat (nat (- i)) else str_nat (nat i))"

text \<open>
  \<^verbatim>\<open>
  def formatar_nome_janela(meses):
      if meses >= 12:
          return f"{meses//12}a"
      else:
          return f"{meses}m"
  \<close>
  Python's \<^verbatim>\<open>//\<close> on integers rounds towards minus infinity, as \<open>div\<close> on \<open>int\<close> does.
\<close>

definition formatar_nome_janela :: "int \<Rightarrow> string" where
  "formatar_nome_janela meses =
     (if meses \<ge> 12 then str_int (meses div 12) @ ''a'' else str_int meses @ ''m'')"

section \<open>Values, rows and the external libraries\<close>

text \<open>
  A float64 cell of a data frame: a finite number, one of the two infinities, or NaN,
  which is also how pandas stores a missing number. Comparisons of finite floats are
  exact, so a finite value is modelled by the real number it denotes.
\<close>

datatype fval = NaN | NInf | Fin real | PInf

fun isna :: "fval \<Rightarrow> bool" where
  "isna NaN = True"
| "isna _ = False"

fun isinf :: "fval \<Rightarrow> bool" where
  "isinf PInf = True"
| "isinf NInf = True"
| "isinf _ = False"

text \<open>IEEE \<^verbatim>\<open>a > b\<close>: false as soon as one side is NaN.\<close>

fun fgt :: "fval \<Rightarrow> fval \<Rightarrow> bool" where
  "fgt (Fin x) (Fin y) = (y < x)"
| "fgt PInf (Fin y) = True"
| "fgt PInf NInf = True"
| "fgt (Fin x) NInf = True"
| "fgt _ _ = False"

text \<open>IEEE \<^verbatim>\<open>a >= b\<close>.\<close>

definition fge :: "fval \<Rightarrow> fval \<Rightarrow> bool" where
  "fge a b = (\<not> isna a \<and> \<not> isna b \<and> \<not> fgt b a)"

datatype error = KeyError | ValueError | TypeError | OtherError

text \<open>
  One row of a data frame. The \<^verbatim>\<open>Date\<close> and \<^verbatim>\<open>Ticker\<close> columns have fields of their own;
  every other column is a float column, read through \<open>vals\<close> by its name. \<open>'d\<close> is the
  type of a date cell: \<open>string option\<close> as read from the file (\<open>None\<close> an empty cell),
  \<open>int option\<close> after \<^verbatim>\<open>pd.to_datetime\<close> (a timestamp in nanoseconds, \<open>None\<close> for NaT).
  A missing ticker is \<open>None\<close>.
\<close>

record 'd row =
  Date :: 'd
  Ticker :: "string option"
  vals :: "string \<Rightarrow> fval"

text \<open>A data frame: the names of all its columns, as \<^verbatim>\<open>df.columns\<close>, and its rows in order.\<close>

record 'd df =
  columns :: "string list"
  rows :: "'d row list"

text \<open>
  What the program takes from outside: the files on disk (\<^verbatim>\<open>pd.read_csv\<close>, which may
  raise), the date parser applied to each cell by
  \<^verbatim>\<open>pd.to_datetime(..., format='mixed', errors='coerce')\<close>, \<^verbatim>\<open>StandardScaler\<close> (fitted on
  one column, it gives the map applied to each of its cells), the classifier
  (\<^verbatim>\<open>XGBClassifier\<close> with its fixed seed: from the training features, the training
  labels and the test features to the predictions and the probabilities of class 1,
  or an exception) and the three metrics of \<^verbatim>\<open>sklearn.metrics\<close>, each of which may raise.
\<close>

record env =
  read_csv :: "string \<Rightarrow> error + string option df"
  to_datetime :: "string \<Rightarrow> int option"
  scaler :: "fval list \<Rightarrow> fval \<Rightarrow> fval"
  classifier :: "fval list list \<Rightarrow> fval list \<Rightarrow> fval list list \<Rightarrow> error + (fval list \<times> fval list)"
  accuracy_score :: "fval list \<Rightarrow> fval list \<Rightarrow> error + fval"
  f1_score :: "fval list \<Rightarrow> fval list \<Rightarrow> error + fval"
  roc_auc_score :: "fval list \<Rightarrow> fval list \<Rightarrow> error + fval"

section \<open>preparar\_dados\<close>

text \<open>\<^verbatim>\<open>df['Date'] = pd.to_datetime(df['Date'], format='mixed', errors='coerce')\<close>\<close>

definition parse_row :: "env \<Rightarrow> string option row \<Rightarrow> int option row" where
  "parse_row e r =
     \<lparr>Date = (case Date r of None \<Rightarrow> None | Some s \<Rightarrow> to_datetime e s),
      Ticker = Ticker r, vals = vals r\<rparr>"

text \<open>\<^verbatim>\<open>df.dropna(subset=cols)\<close>: keeps the rows with no missing value in \<open>cols\<close>.\<close>

definition dropna :: "string list \<Rightarrow> 'd row list \<Rightarrow> 'd row list" where
  "dropna cols rs = filter (\<lambda>r. list_all (\<lambda>c. \<not> isna (vals r c)) cols) rs"

text \<open>\<^verbatim>\<open>np.isinf(df[cols].values).any()\<close>\<close>

definition inf_any :: "string list \<Rightarrow> 'd row list \<Rightarrow> bool" where
  "inf_any cols rs = list_ex (\<lambda>r. list_ex (\<lambda>c. isinf (vals r c)) cols) rs"

text \<open>\<^verbatim>\<open>df[cols] = df[cols].replace([np.inf, -np.inf], np.nan)\<close>, on one row.\<close>

definition replace_inf :: "string list \<Rightarrow> 'd row \<Rightarrow> 'd row" where
  "replace_inf cols r =
     r\<lparr>vals := (\<lambda>c. if c \<in> set cols \<and> isinf (vals r c) then NaN else vals r c)\<rparr>"

text \<open>
  \<^verbatim>\<open>df[cols] = StandardScaler().fit_transform(df[cols])\<close>: each column of \<open>cols\<close> is
  fitted on all the rows and then transformed cell by cell.
\<close>

definition standard_scaler :: "env \<Rightarrow> string list \<Rightarrow> 'd row list \<Rightarrow> 'd row list" where
  "standard_scaler e cols rs =
     map (\<lambda>r. r\<lparr>vals := (\<lambda>c. if c \<in> set cols
                               then scaler e (map (\<lambda>x. vals x c) rs) (vals r c)
                               else vals r c)\<rparr>) rs"

text \<open>
  \<^verbatim>\<open>df.groupby('Ticker')['Adj Close'].shift(-1)\<close>: for each row, the \<^verbatim>\<open>Adj Close\<close> of the
  next row below it with the same ticker, NaN when there is none. \<^verbatim>\<open>groupby\<close> leaves the
  rows with a missing ticker out of every group, and they get NaN.
\<close>

fun next_in_group :: "string \<Rightarrow> 'd row list \<Rightarrow> fval" where
  "next_in_group t [] = NaN"
| "next_in_group t (r # rs) =
     (if Ticker r = Some t then vals r ''Adj Close'' else next_in_group t rs)"

fun shift_m1 :: "'d row list \<Rightarrow> fval list" where
  "shift_m1 [] = []"
| "shift_m1 (r # rs) =
     (case Ticker r of None \<Rightarrow> NaN | Some t \<Rightarrow> next_in_group t rs) # shift_m1 rs"

text \<open>
  \<^verbatim>\<open>df['Target'] = (shifted > df['Adj Close']).astype(int)\<close>: the comparison is false
  on NaN, so the label is 0 there; no row is removed.
\<close>

definition set_target :: "'d row \<Rightarrow> fval \<Rightarrow> 'd row" where
  "set_target r s =
     r\<lparr>vals := (vals r)(''Target'' := (if fgt s (vals r ''Adj Close'') then Fin 1 else Fin 0))\<rparr>"

definition add_target :: "'d row list \<Rightarrow> 'd row list" where
  "add_target rs = map (\<lambda>(r, s). set_target r s) (zip rs (shift_m1 rs))"

text \<open>
  \<^verbatim>\<open>
  def preparar_dados(caminho_arquivo, features):
      df = pd.read_csv(caminho_arquivo, sep=';', decimal=',')
      df['Date'] = pd.to_datetime(df['Date'], format='mixed', errors='coerce')
      features_validas = [f for f in features if f in df.columns]
      if len(features_validas) != len(features):
          logger.warning(...)
      df = df.dropna(subset=features_validas + ['Adj Close'])
      inf_mask = np.isinf(df[features_validas].values)
      if inf_mask.any():
          logger.warning(...)
          df[features_validas] = df[features_validas].replace([np.inf, -np.inf], np.nan)
          df = df.dropna(subset=features_validas)
      if len(df) > 0 and len(features_validas) > 0:
          df[features_validas] = StandardScaler().fit_transform(df[features_validas])
      df['Target'] = (df.groupby('Ticker')['Adj Close'].shift(-1) > df['Adj Close']).astype(int)
      return df, features_validas
  \<close>
  A column that is read and is not in the file raises KeyError. The steps on
  \<open>features_validas\<close> work on float columns: a request that names the \<^verbatim>\<open>Date\<close> or the
  \<^verbatim>\<open>Ticker\<close> column hands them a column of another type, and the model stops there with
  TypeError; nothing is stated below about such a request. Log messages are left out.
\<close>

definition preparar_dados ::
  "env \<Rightarrow> string \<Rightarrow> string list \<Rightarrow> error + (int option df \<times> string list)" where
  "preparar_dados e caminho_arquivo features =
     (case read_csv e caminho_arquivo of
        Inl err \<Rightarrow> Inl err
      | Inr raw \<Rightarrow>
          if ''Date'' \<notin> set (columns raw) then Inl KeyError
          else
            let rs0 = map (parse_row e) (rows raw);
                features_validas = filter (\<lambda>f. f \<in> set (columns raw)) features
            in
              if ''Adj Close'' \<notin> set (columns raw) then Inl KeyError
              else if ''Date'' \<in> set features_validas \<or> ''Ticker'' \<in> set features_validas
              then Inl TypeError
              else
                let rs1 = dropna (features_validas @ [''Adj Close'']) rs0;
                    rs2 = (if inf_any features_validas rs1
                           then dropna features_validas (map (replace_inf features_validas) rs1)
                           else rs1);
                    rs3 = (if length rs2 > 0 \<and> length features_validas > 0
                           then standard_scaler e features_validas rs2
                           else rs2)
                in
                  if ''Ticker'' \<notin> set (columns raw) then Inl KeyError
                  else Inr (\<lparr>columns = (if ''Target'' \<in> set (columns raw) then columns raw
                                         else columns raw @ [''Target'']),
                             rows = add_target rs3\<rparr>,
                            features_validas))"

section \<open>treinar\_avaliar\<close>

text \<open>\<^verbatim>\<open>timedelta(days=k)\<close> in nanoseconds, the unit of the timestamps.\<close>

definition timedelta_days :: "int \<Rightarrow> int" where
  "timedelta_days k = k * 86400000000000"

text \<open>\<^verbatim>\<open>df['Date'].max()\<close>: the latest date, NaT cells skipped; NaT when no row has a date.\<close>

definition date_max :: "int option row list \<Rightarrow> int option" where
  "date_max rs =
     (case concat (map (\<lambda>r. case Date r of None \<Rightarrow> [] | Some t \<Rightarrow> [t]) rs) of
        [] \<Rightarrow> None
      | t # ts \<Rightarrow> Some (fold max ts t))"

text \<open>\<^verbatim>\<open>data_limite = df['Date'].max() - timedelta(days=30*meses_retroativos)\<close>\<close>

definition data_limite :: "int option df \<Rightarrow> int \<Rightarrow> int option" where
  "data_limite d meses_retroativos =
     (case date_max (rows d) of
        None \<Rightarrow> None
      | Some mx \<Rightarrow> Some (mx - timedelta_days (30 * meses_retroativos)))"

text \<open>\<^verbatim>\<open>date >= limit\<close> on timestamps: false when either side is NaT.\<close>

fun date_ge :: "int option \<Rightarrow> int option \<Rightarrow> bool" where
  "date_ge (Some t) (Some c) = (c \<le> t)"
| "date_ge _ _ = False"

text \<open>\<^verbatim>\<open>df_recente = df[df['Date'] >= data_limite]\<close>\<close>

definition df_recente :: "int option df \<Rightarrow> int \<Rightarrow> int option row list" where
  "df_recente d meses_retroativos =
     filter (\<lambda>r. date_ge (Date r) (data_limite d meses_retroativos)) (rows d)"

text \<open>
  \<^verbatim>\<open>train_test_split(X, y, shuffle=False, test_size=0.2)\<close>: the last
  \<open>\<lceil>0.2 n\<rceil>\<close> of the \<open>n\<close> samples are the test slice, the ones before them the training
  slice, in their order; an empty training slice raises ValueError.
\<close>

definition train_test_split ::
  "'a list \<Rightarrow> 'b list \<Rightarrow> error + ('a list \<times> 'a list \<times> 'b list \<times> 'b list)" where
  "train_test_split X y =
     (let n = length X; n_test = (n + 4) div 5; n_train = n - n_test
      in if n_train = 0 then Inl ValueError
         else Inr (take n_train X, drop n_train X, take n_train y, drop n_train y))"

text \<open>
  The part of \<^verbatim>\<open>treinar_avaliar\<close> after the sample count check:
  \<^verbatim>\<open>
      X = df_recente[features]
      y = df_recente['Target']
      X_train, X_test, y_train, y_test = train_test_split(X, y, shuffle=False, test_size=0.2, ...)
      model = XGBClassifier(...)
      model.fit(X_train, y_train)
      preds = model.predict(X_test)
      probs = model.predict_proba(X_test)[:, 1]
      acc = accuracy_score(y_test, preds)
      f1 = f1_score(y_test, preds)
      roc = roc_auc_score(y_test, probs)
      return acc, f1, roc
  \<close>
\<close>

definition treinar ::
  "env \<Rightarrow> int option df \<Rightarrow> int option row list \<Rightarrow> string list \<Rightarrow>
   error + (fval option \<times> fval option \<times> fval option)" where
  "treinar e d recente features =
     (if \<not> list_all (\<lambda>f. f \<in> set (columns d)) features then Inl KeyError
      else if ''Target'' \<notin> set (columns d) then Inl KeyError
      else
        let X = map (\<lambda>r. map (vals r) features) recente;
            y = map (\<lambda>r. vals r ''Target'') recente
        in case train_test_split X y of
             Inl err \<Rightarrow> Inl err
           | Inr (X_train, X_test, y_train, y_test) \<Rightarrow>
               (case classifier e X_train y_train X_test of
                  Inl err \<Rightarrow> Inl err
                | Inr (preds, probs) \<Rightarrow>
                    (case accuracy_score e y_test preds of
                       Inl err \<Rightarrow> Inl err
                     | Inr acc \<Rightarrow>
                         (case f1_score e y_test preds of
                            Inl err \<Rightarrow> Inl err
                          | Inr f1 \<Rightarrow>
                              (case roc_auc_score e y_test probs of
                                 Inl err \<Rightarrow> Inl err
                               | Inr roc \<Rightarrow> Inr (Some acc, Some f1, Some roc))))))"

text \<open>
  \<^verbatim>\<open>
  def treinar_avaliar(df, features, meses_retroativos, min_amostras=100):
      data_limite = df['Date'].max() - timedelta(days=30*meses_retroativos)
      df_recente = df[df['Date'] >= data_limite]
      if len(df_recente) < min_amostras:
          return None, None, None
      ...
  \<close>
  The result is the triple \<open>(acc, f1, roc)\<close>, \<open>None\<close> for Python's \<^verbatim>\<open>None\<close>. Timestamps are
  unbounded integers here.
\<close>

definition treinar_avaliar ::
  "env \<Rightarrow> int option df \<Rightarrow> string list \<Rightarrow> int \<Rightarrow> int \<Rightarrow>
   error + (fval option \<times> fval option \<times> fval option)" where
  "treinar_avaliar e d features meses_retroativos min_amostras =
     (let recente = df_recente d meses_retroativos
      in if int (length recente) < min_amostras then Inr (None, None, None)
         else treinar e d recente features)"

section \<open>The sweep\<close>

text \<open>
  The two output tables. A row of \<^verbatim>\<open>todas_metricas\<close> has the keys \<^verbatim>\<open>Dataset\<close>, \<^verbatim>\<open>Janela\<close>,
  \<^verbatim>\<open>ROC_AUC\<close>, \<^verbatim>\<open>Accuracy\<close> and \<^verbatim>\<open>F1_Score\<close>; a row of \<^verbatim>\<open>resultados\<close> the keys
  \<^verbatim>\<open>Dataset\<close>, \<^verbatim>\<open>Melhor_Janela\<close>, \<^verbatim>\<open>Melhor_ROC_AUC\<close>, \<^verbatim>\<open>Melhor_Accuracy\<close> and
  \<^verbatim>\<open>Melhor_F1_Score\<close>. \<open>None\<close> is Python's \<^verbatim>\<open>None\<close>.
\<close>

record tabela_row =
  Dataset :: string

record metrica = tabela_row +
  Janela :: string
  ROC_AUC :: "fval option"
  Accuracy :: "fval option"
  F1_Score :: "fval option"

record resultado = tabela_row +
  Melhor_Janela :: "string option"
  Melhor_ROC_AUC :: "fval option"
  Melhor_Accuracy :: "fval option"
  Melhor_F1_Score :: "fval option"

text \<open>
  The best tracker of one dataset:
  \<^verbatim>\<open>
            melhor_roc = 0
            melhor_acc = 0
            melhor_f1 = 0
            melhor_janela = None
  \<close>
\<close>

record melhor =
  melhor_roc :: fval
  melhor_acc :: "fval option"
  melhor_f1 :: "fval option"
  melhor_janela :: "string option"

definition melhor_inicial :: melhor where
  "melhor_inicial =
     \<lparr>melhor_roc = Fin 0, melhor_acc = Some (Fin 0), melhor_f1 = Some (Fin 0),
      melhor_janela = None\<rparr>"

text \<open>
  \<^verbatim>\<open>
                if roc is not None and roc > melhor_roc:
                    melhor_roc = roc
                    melhor_acc = acc
                    melhor_f1 = f1
                    melhor_janela = formatar_nome_janela(meses)
  \<close>
\<close>

definition atualizar_melhor ::
  "melhor \<Rightarrow> int \<Rightarrow> fval option \<times> fval option \<times> fval option \<Rightarrow> melhor" where
  "atualizar_melhor b meses res =
     (case res of (acc, f1, roc) \<Rightarrow>
        (case roc of
           None \<Rightarrow> b
         | Some r \<Rightarrow>
             if fgt r (melhor_roc b)
             then \<lparr>melhor_roc = r, melhor_acc = acc, melhor_f1 = f1,
                   melhor_janela = Some (formatar_nome_janela meses)\<rparr>
             else b))"

text \<open>The row appended to \<^verbatim>\<open>todas_metricas\<close> for one window.\<close>

definition linha_metrica ::
  "string \<Rightarrow> int \<Rightarrow> fval option \<times> fval option \<times> fval option \<Rightarrow> metrica" where
  "linha_metrica arquivo meses res =
     (case res of (acc, f1, roc) \<Rightarrow>
        \<lparr>Dataset = arquivo, Janela = formatar_nome_janela meses,
         ROC_AUC = roc, Accuracy = acc, F1_Score = f1\<rparr>)"

text \<open>
  The loop over the windows of one dataset:
  \<^verbatim>\<open>
            for meses in tqdm(janelas_meses, ...):
                acc, f1, roc = treinar_avaliar(df, features_validas, meses)
                todas_metricas.append({...})
                logger.info(...)
                if roc is not None and roc > melhor_roc: ...
  \<close>
  An exception of \<^verbatim>\<open>treinar_avaliar\<close> leaves the loop; the rows appended before it stay
  in \<^verbatim>\<open>todas_metricas\<close>, so the list is returned in both cases.
\<close>

fun janelas_loop ::
  "env \<Rightarrow> int option df \<Rightarrow> string list \<Rightarrow> string \<Rightarrow> int list \<Rightarrow> melhor \<Rightarrow> metrica list \<Rightarrow>
   (error + melhor) \<times> metrica list" where
  "janelas_loop e d fv arquivo [] b tm = (Inr b, tm)"
| "janelas_loop e d fv arquivo (meses # ms) b tm =
     (case treinar_avaliar e d fv meses 100 of
        Inl err \<Rightarrow> (Inl err, tm)
      | Inr res \<Rightarrow>
          janelas_loop e d fv arquivo ms (atualizar_melhor b meses res)
            (tm @ [linha_metrica arquivo meses res]))"

definition janelas_meses :: "int list" where
  "janelas_meses = [3, 6, 9, 12, 24, 36]"

record estado =
  resultados :: "resultado list"
  todas_metricas :: "metrica list"

text \<open>
  The body of the loop over the files, with its \<^verbatim>\<open>try\<close>/\<^verbatim>\<open>except Exception\<close>:
  \<^verbatim>\<open>
        try:
            caminho = os.path.join('dados_transformados', arquivo)
            if arquivo not in features_especificas:
                continue
            df, features_validas = preparar_dados(caminho, features_especificas[arquivo])
            if len(features_validas) == 0 or len(df) == 0:
                continue
            ... the loop over the windows ...
            resultados.append({'Dataset': arquivo, 'Melhor_Janela': melhor_janela,
                'Melhor_ROC_AUC': melhor_roc, 'Melhor_Accuracy': melhor_acc,
                'Melhor_F1_Score': melhor_f1})
        except Exception as e:
            logger.exception(...)
  \<close>
\<close>

definition processar_arquivo ::
  "env \<Rightarrow> (string \<rightharpoonup> string list) \<Rightarrow> string \<Rightarrow> estado \<Rightarrow> estado" where
  "processar_arquivo e features_especificas arquivo st =
     (let caminho = ''dados_transformados/'' @ arquivo
      in case features_especificas arquivo of
           None \<Rightarrow> st
         | Some features \<Rightarrow>
             (case preparar_dados e caminho features of
                Inl err \<Rightarrow> st
              | Inr (d, features_validas) \<Rightarrow>
                  if length features_validas = 0 \<or> length (rows d) = 0 then st
                  else
                    (case janelas_loop e d features_validas arquivo janelas_meses
                            melhor_inicial (todas_metricas st) of
                       (Inl err, tm) \<Rightarrow> st\<lparr>todas_metricas := tm\<rparr>
                     | (Inr b, tm) \<Rightarrow>
                         \<lparr>resultados = resultados st @
                            [\<lparr>Dataset = arquivo, Melhor_Janela = melhor_janela b,
                              Melhor_ROC_AUC = Some (melhor_roc b),
                              Melhor_Accuracy = melhor_acc b,
                              Melhor_F1_Score = melhor_f1 b\<rparr>],
                          todas_metricas = tm\<rparr>)))"

text \<open>\<^verbatim>\<open>f.endswith('.csv')\<close>\<close>

definition endswith :: "string \<Rightarrow> string \<Rightarrow> bool" where
  "endswith s suf = (length suf \<le> length s \<and> drop (length s - length suf) s = suf)"

text \<open>\<^verbatim>\<open>for arquivo in arquivos:\<close> from a state of the two tables.\<close>

fun sweep :: "env \<Rightarrow> (string \<rightharpoonup> string list) \<Rightarrow> string list \<Rightarrow> estado \<Rightarrow> estado" where
  "sweep e features_especificas [] st = st"
| "sweep e features_especificas (arquivo # arquivos) st =
     sweep e features_especificas arquivos (processar_arquivo e features_especificas arquivo st)"

text \<open>
  The main program, from the listing of \<^verbatim>\<open>dados_transformados\<close> and the loaded
  \<^verbatim>\<open>features_selecionadas.json\<close> to the two tables it writes.
\<close>

definition main :: "env \<Rightarrow> string list \<Rightarrow> (string \<rightharpoonup> string list) \<Rightarrow> estado" where
  "main e listdir features_especificas =
     sweep e features_especificas (filter (\<lambda>f. endswith f ''.csv'') listdir)
       \<lparr>resultados = [], todas_metricas = []\<rparr>"

section \<open>Notions used in the statements\<close>

text \<open>
  A row is complete for the columns \<open>cols\<close> when it has no missing value in \<open>cols\<close> or
  in \<^verbatim>\<open>Adj Close\<close> and no infinite value in \<open>cols\<close>. Its date and ticker are not looked at.
\<close>

definition linha_completa :: "string list \<Rightarrow> 'd row \<Rightarrow> bool" where
  "linha_completa cols r =
     (list_all (\<lambda>c. \<not> isna (vals r c)) (cols @ [''Adj Close'']) \<and>
      list_all (\<lambda>c. \<not> isinf (vals r c)) cols)"

text \<open>The standardisation step of \<open>preparar_dados\<close> with its guard.\<close>

definition escalado :: "env \<Rightarrow> string list \<Rightarrow> 'd row list \<Rightarrow> 'd row list" where
  "escalado e cols rs =
     (if length rs > 0 \<and> length cols > 0 then standard_scaler e cols rs else rs)"

text \<open>What is observed of a prepared data frame: date, ticker, price and label of each row.\<close>

definition visao :: "int option df \<Rightarrow> (int option \<times> string option \<times> fval \<times> fval) list" where
  "visao d = map (\<lambda>r. (Date r, Ticker r, vals r ''Adj Close'', vals r ''Target'')) (rows d)"

definition preparado :: "env \<Rightarrow> string \<Rightarrow> string list \<Rightarrow> int option df option" where
  "preparado e caminho features =
     (case preparar_dados e caminho features of Inl err \<Rightarrow> None | Inr (d, fv) \<Rightarrow> Some d)"

text \<open>The column of labels of a prepared data frame.\<close>

definition alvos :: "int option df \<Rightarrow> fval list" where
  "alvos d = map (\<lambda>r. vals r ''Target'') (rows d)"

text \<open>
  The label in the words of the specification: 1 if the chronologically next adjusted
  close of the same instrument is strictly greater than the one of the row, else 0. The
  chronologically next observation of a row is the row of the same ticker with the
  earliest date strictly after its date.
\<close>

definition depois :: "int option \<Rightarrow> int option \<Rightarrow> bool" where
  "depois a b = (case (a, b) of (Some x, Some y) \<Rightarrow> y < x | _ \<Rightarrow> False)"

definition proxima_cronologica ::
  "int option row list \<Rightarrow> int option row \<Rightarrow> int option row option" where
  "proxima_cronologica rs r =
     (case filter (\<lambda>x. Ticker r \<noteq> None \<and> Ticker x = Ticker r \<and> depois (Date x) (Date r)) rs of
        [] \<Rightarrow> None
      | x # xs \<Rightarrow> Some (fold (\<lambda>y m. if depois (Date m) (Date y) then y else m) xs x))"

definition Target_spec :: "int option row list \<Rightarrow> int option row \<Rightarrow> fval" where
  "Target_spec rs r =
     (case proxima_cronologica rs r of
        None \<Rightarrow> Fin 0
      | Some x \<Rightarrow> if fgt (vals x ''Adj Close'') (vals r ''Adj Close'') then Fin 1 else Fin 0)"

text \<open>The labels that this wording gives to the rows of a data frame.\<close>

definition alvos_spec :: "int option df \<Rightarrow> fval list" where
  "alvos_spec d = map (Target_spec (rows d)) (rows d)"

text \<open>
  The rows of every instrument stand in strictly ascending order of their dates.
\<close>

definition ordem_cronologica :: "int option row list \<Rightarrow> bool" where
  "ordem_cronologica rs =
     (\<forall>i j. i < j \<and> j < length rs \<and> Ticker (rs ! i) \<noteq> None \<and> Ticker (rs ! j) = Ticker (rs ! i) \<longrightarrow>
        depois (Date (rs ! j)) (Date (rs ! i)))"

text \<open>The labels of a slice are all of one class.\<close>

definition uma_classe :: "fval list \<Rightarrow> bool" where
  "uma_classe y = (case y of [] \<Rightarrow> True | c # cs \<Rightarrow> list_all (\<lambda>x. x = c) cs)"

text \<open>
  The labels of the test slice of a window: the last fifth, rounded up, of the labels of
  the selected rows, as \<open>train_test_split\<close> cuts them.
\<close>

definition y_teste :: "int option df \<Rightarrow> int \<Rightarrow> fval list" where
  "y_teste d meses =
     (let y = map (\<lambda>r. vals r ''Target'') (df_recente d meses)
      in drop (length y - (length y + 4) div 5) y)"

text \<open>
  The row of \<^verbatim>\<open>todas_metricas\<close> for a window whose evaluation returned, and whether the
  evaluation of a window returns (rather than raising).
\<close>

definition linha_janela :: "env \<Rightarrow> int option df \<Rightarrow> string list \<Rightarrow> string \<Rightarrow> int \<Rightarrow> metrica" where
  "linha_janela e d fv arquivo meses =
     linha_metrica arquivo meses (projr (treinar_avaliar e d fv meses 100))"

definition retorna :: "env \<Rightarrow> int option df \<Rightarrow> string list \<Rightarrow> int \<Rightarrow> bool" where
  "retorna e d fv meses = (\<not> isl (treinar_avaliar e d fv meses 100))"

text \<open>
  The rows one file adds to \<^verbatim>\<open>todas_metricas\<close>: none when the file is skipped or its
  preparation raises, else one row for each window up to the first one whose evaluation
  raises.
\<close>

definition metricas_do_arquivo :: "env \<Rightarrow> (string \<rightharpoonup> string list) \<Rightarrow> string \<Rightarrow> metrica list" where
  "metricas_do_arquivo e features_especificas arquivo =
     (case features_especificas arquivo of
        None \<Rightarrow> []
      | Some features \<Rightarrow>
          (case preparar_dados e (''dados_transformados/'' @ arquivo) features of
             Inl err \<Rightarrow> []
           | Inr (d, fv) \<Rightarrow>
               if length fv = 0 \<or> length (rows d) = 0 then []
               else map (linha_janela e d fv arquivo) (takeWhile (retorna e d fv) janelas_meses)))"

text \<open>
  The ROC-AUC that the evaluation of a window gave, if it gave one.
\<close>

definition roc_da_janela :: "env \<Rightarrow> int option df \<Rightarrow> string list \<Rightarrow> int \<Rightarrow> fval option" where
  "roc_da_janela e d fv meses =
     (case treinar_avaliar e d fv meses 100 of
        Inl err \<Rightarrow> None
      | Inr (acc, f1, roc) \<Rightarrow> roc)"

section \<open>Example inputs\<close>

text \<open>
  A date parser that knows two days (as nanoseconds since 1970) and rejects every other
  text, and files with the columns \<^verbatim>\<open>Date\<close>, \<^verbatim>\<open>Ticker\<close>, \<^verbatim>\<open>Adj Close\<close> and \<^verbatim>\<open>RSI\<close>.
\<close>

definition to_datetime_ex :: "string \<Rightarrow> int option" where
  "to_datetime_ex s =
     (if s = ''2024-01-01'' then Some 1704067200000000000
      else if s = ''2024-01-02'' then Some 1704153600000000000
      else None)"

definition linha_ex :: "string \<Rightarrow> string \<Rightarrow> real \<Rightarrow> string option row" where
  "linha_ex data ticker preco =
     \<lparr>Date = Some data, Ticker = Some ticker,
      vals = (\<lambda>c. NaN)(''Adj Close'' := Fin preco, ''RSI'' := Fin 50)\<rparr>"

definition csv_ex :: "string option row list \<Rightarrow> string option df" where
  "csv_ex rs = \<lparr>columns = [''Date'', ''Ticker'', ''Adj Close'', ''RSI''], rows = rs\<rparr>"

definition curto_csv :: "string option df" where
  "curto_csv = csv_ex [linha_ex ''2024-01-01'' ''PETR4'' 10, linha_ex ''2024-01-02'' ''PETR4'' 20]"

definition ordem_csv :: "string option df" where
  "ordem_csv = csv_ex [linha_ex ''2024-01-02'' ''PETR4'' 10, linha_ex ''2024-01-01'' ''PETR4'' 20]"

definition data_ruim_csv :: "string option df" where
  "data_ruim_csv = csv_ex [linha_ex ''sem data'' ''PETR4'' 10, linha_ex ''2024-01-02'' ''PETR4'' 20]"

definition constante_csv :: "string option df" where
  "constante_csv = csv_ex (replicate 100 (linha_ex ''2024-01-01'' ''PETR4'' 10))"

definition read_csv_ex :: "string \<Rightarrow> error + string option df" where
  "read_csv_ex caminho =
     (if caminho = ''dados_transformados/curto.csv'' then Inr curto_csv
      else if caminho = ''dados_transformados/ordem.csv'' then Inr ordem_csv
      else if caminho = ''dados_transformados/data_ruim.csv'' then Inr data_ruim_csv
      else if caminho = ''dados_transformados/constante.csv'' then Inr constante_csv
      else Inl OtherError)"

text \<open>
  Example libraries: a scaler that leaves the cells as they are (no statement below
  looks at a scaled column), a classifier that predicts class 0 with probability 1/2 for
  every test row, the accuracy as the share of equal labels, the F1 score 0 of a
  prediction with no positive, and a ROC-AUC that raises ValueError when the true labels
  are of one class, as \<^verbatim>\<open>roc_auc_score\<close> documents, and is 1/2 for constant
  probabilities otherwise.
\<close>

definition env_ex :: env where
  "env_ex =
     \<lparr>read_csv = read_csv_ex,
      to_datetime = to_datetime_ex,
      scaler = (\<lambda>col x. x),
      classifier = (\<lambda>X_train y_train X_test.
         Inr (map (\<lambda>x. Fin 0) X_test, map (\<lambda>x. Fin (1 / 2)) X_test)),
      accuracy_score = (\<lambda>y preds.
         Inr (Fin (real (length (filter (\<lambda>(a, b). a = b) (zip y preds))) / real (length y)))),
      f1_score = (\<lambda>y preds. Inr (Fin 0)),
      roc_auc_score = (\<lambda>y probs. if uma_classe y then Inl ValueError else Inr (Fin (1 / 2)))\<rparr>"


text \<open>
  The loaded feature lists of the example files.
\<close>

definition feats_ex :: "string \<rightharpoonup> string list" where
  "feats_ex = map_of [(''curto.csv'', [''RSI'']), (''constante.csv'', [''RSI''])]"

text \<open>The data frame that \<open>preparar_dados\<close> returns for the file \<^verbatim>\<open>curto.csv\<close>.\<close>

definition curto_preparado :: "int option df" where
  "curto_preparado = fst (projr (preparar_dados env_ex ''dados_transformados/curto.csv'' [''RSI'']))"

text \<open>
  The data frame that \<open>preparar_dados\<close> returns for the file \<^verbatim>\<open>data_ruim.csv\<close>.
\<close>

definition data_ruim_preparado :: "int option df" where
  "data_ruim_preparado =
     fst (projr (preparar_dados env_ex ''dados_transformados/data_ruim.csv'' [''RSI'']))"

text \<open>
  The data frame that \<open>preparar_dados\<close> returns for \<^verbatim>\<open>constante.csv\<close>, a hundred rows of one
  instrument on one day with one price, so that every label is 0.
\<close>

definition constante_preparado :: "int option df" where
  "constante_preparado =
     fst (projr (preparar_dados env_ex ''dados_transformados/constante.csv'' [''RSI'']))"

text \<open>
  Prepared data frames given directly: \<open>df_ex\<close> has four rows of one instrument, of
  2022-11-27, of a missing date, of 2023-09-03 and of 2024-01-01.
\<close>

definition linha_prep :: "int option \<Rightarrow> real \<Rightarrow> real \<Rightarrow> int option row" where
  "linha_prep data preco alvo =
     \<lparr>Date = data, Ticker = Some ''PETR4'',
      vals = (\<lambda>c. NaN)(''Adj Close'' := Fin preco, ''RSI'' := Fin 0, ''Target'' := Fin alvo)\<rparr>"

definition df_ex :: "int option df" where
  "df_ex =
     \<lparr>columns = [''Date'', ''Ticker'', ''Adj Close'', ''RSI'', ''Target''],
      rows = [linha_prep (Some 1669507200000000000) 10 1,
              linha_prep None 11 1,
              linha_prep (Some 1693699200000000000) 12 0,
              linha_prep (Some 1704067200000000000) 11 0]\<rparr>"

text \<open>
  \<open>df_grande\<close> has a hundred rows of one instrument on one day whose prices alternate
  between 10 and 20, so that the labels alternate between 1 and 0.
\<close>

definition df_grande :: "int option df" where
  "df_grande =
     \<lparr>columns = [''Date'', ''Ticker'', ''Adj Close'', ''RSI'', ''Target''],
      rows = concat (replicate 50 [linha_prep (Some 1704067200000000000) 10 1,
                                   linha_prep (Some 1704067200000000000) 20 0])\<rparr>"

section \<open>Properties of the window labels\<close>

lemma str_nat_digit: "n < 10 \<Longrightarrow> str_nat n = [digit_char n]"
  by (simp add: str_nat.simps)

text \<open>
  C9: a month count of at least 12 is rendered as the floored number of years followed by
  \<open>a\<close>, a smaller one as the month count followed by \<open>m\<close>; 3, 6, 12, 24 and 36 give
  exactly \<open>3m\<close>, \<open>6m\<close>, \<open>1a\<close>, \<open>2a\<close> and \<open>3a\<close>.
\<close>

theorem formatar_nome_janela_labels:
  "(12 \<le> meses \<longrightarrow> formatar_nome_janela meses = str_int (meses div 12) @ ''a'') \<and>
   (meses < 12 \<longrightarrow> formatar_nome_janela meses = str_int meses @ ''m'') \<and>
   formatar_nome_janela 3 = ''3m'' \<and> formatar_nome_janela 6 = ''6m'' \<and>
   formatar_nome_janela 12 = ''1a'' \<and> formatar_nome_janela 24 = ''2a'' \<and>
   formatar_nome_janela 36 = ''3a''"
  by (simp add: formatar_nome_janela_def str_int_def str_nat_digit digit_char_def)

theorem formatar_nome_janela_labels_witness:
  "(12::int) \<le> 30 \<and> formatar_nome_janela 30 = ''2a'' \<and>
   (11::int) < 12 \<and> formatar_nome_janela 11 = ''11m''"
  using formatar_nome_janela_labels [of 30] formatar_nome_janela_labels [of 11]
  by (simp add: str_int_def str_nat.simps digit_char_def)

section \<open>Properties of preparar\_dados\<close>

subsection \<open>The rows that are kept\<close>

lemma replace_inf_id:
  "list_all (\<lambda>c. \<not> isinf (vals r c)) cols \<Longrightarrow> replace_inf cols r = r"
proof -
  assume a: "list_all (\<lambda>c. \<not> isinf (vals r c)) cols"
  have "(\<lambda>c. if c \<in> set cols \<and> isinf (vals r c) then NaN else vals r c) = vals r"
    using a by (auto simp: list_all_iff fun_eq_iff)
  then show ?thesis by (simp add: replace_inf_def)
qed

lemma isna_replace_inf:
  "list_all (\<lambda>c. \<not> isna (vals r c)) cols \<Longrightarrow>
   list_all (\<lambda>c. \<not> isna (vals (replace_inf cols r) c)) cols = list_all (\<lambda>c. \<not> isinf (vals r c)) cols"
  by (auto simp: list_all_iff replace_inf_def)

lemma dropna_replace_inf:
  "\<forall>r \<in> set rs. list_all (\<lambda>c. \<not> isna (vals r c)) cols \<Longrightarrow>
   dropna cols (map (replace_inf cols) rs) = filter (\<lambda>r. list_all (\<lambda>c. \<not> isinf (vals r c)) cols) rs"
proof (induction rs)
  case Nil
  then show ?case by (simp add: dropna_def)
next
  case (Cons r rs)
  then have ih: "dropna cols (map (replace_inf cols) rs) = filter (\<lambda>r. list_all (\<lambda>c. \<not> isinf (vals r c)) cols) rs"
    by simp
  from Cons.prems have na: "list_all (\<lambda>c. \<not> isna (vals r c)) cols" by simp
  show ?case
  proof (cases "list_all (\<lambda>c. \<not> isinf (vals r c)) cols")
    case True
    then show ?thesis
      using ih isna_replace_inf [OF na] replace_inf_id [OF True]
      by (simp add: dropna_def)
  next
    case False
    then show ?thesis
      using ih isna_replace_inf [OF na]
      by (simp add: dropna_def)
  qed
qed

lemma no_inf_filter:
  "\<not> inf_any cols rs \<Longrightarrow> filter (\<lambda>r. list_all (\<lambda>c. \<not> isinf (vals r c)) cols) rs = rs"
  by (induction rs) (auto simp: inf_any_def list_all_iff list_ex_iff)

lemma limpeza:
  "(if inf_any cols (dropna (cols @ [''Adj Close'']) rs)
    then dropna cols (map (replace_inf cols) (dropna (cols @ [''Adj Close'']) rs))
    else dropna (cols @ [''Adj Close'']) rs) = filter (linha_completa cols) rs"
proof -
  let ?rs1 = "dropna (cols @ [''Adj Close'']) rs"
  have na: "\<forall>r \<in> set ?rs1. list_all (\<lambda>c. \<not> isna (vals r c)) cols"
    by (auto simp: dropna_def)
  have f: "filter (\<lambda>r. list_all (\<lambda>c. \<not> isinf (vals r c)) cols) ?rs1 = filter (linha_completa cols) rs"
    unfolding dropna_def filter_filter
    by (rule filter_cong) (auto simp: linha_completa_def)
  show ?thesis
    using dropna_replace_inf [OF na] no_inf_filter [of cols ?rs1] f by auto
qed

lemma linha_completa_parse_row [simp]:
  "linha_completa cols (parse_row e r) = linha_completa cols r"
  by (simp add: linha_completa_def parse_row_def)

lemma filter_completa_parse:
  "filter (linha_completa cols) (map (parse_row e) rs) =
   map (parse_row e) (filter (linha_completa cols) rs)"
  by (induction rs) simp_all

lemma length_shift_m1 [simp]: "length (shift_m1 rs) = length rs"
  by (induction rs) simp_all

lemma length_add_target [simp]: "length (add_target rs) = length rs"
  by (simp add: add_target_def)

lemma nth_add_target:
  "i < length rs \<Longrightarrow> add_target rs ! i = set_target (rs ! i) (shift_m1 rs ! i)"
  by (simp add: add_target_def)

lemma Date_add_target [simp]: "map Date (add_target rs) = map Date rs"
  by (rule nth_equalityI) (simp_all add: nth_add_target set_target_def)

lemma Ticker_add_target [simp]: "map Ticker (add_target rs) = map Ticker rs"
  by (rule nth_equalityI) (simp_all add: nth_add_target set_target_def)

lemma Date_standard_scaler [simp]: "map Date (standard_scaler e cols rs) = map Date rs"
  by (simp add: standard_scaler_def comp_def)

lemma Ticker_standard_scaler [simp]: "map Ticker (standard_scaler e cols rs) = map Ticker rs"
  by (simp add: standard_scaler_def comp_def)

lemma Date_escalado [simp]: "map Date (escalado e cols rs) = map Date rs"
  by (simp add: escalado_def)

lemma Ticker_escalado [simp]: "map Ticker (escalado e cols rs) = map Ticker rs"
  by (simp add: escalado_def)

lemma length_escalado [simp]: "length (escalado e cols rs) = length rs"
  by (simp add: escalado_def standard_scaler_def)

lemma vals_escalado:
  "c \<notin> set cols \<Longrightarrow> r \<in> set (escalado e cols rs) \<Longrightarrow> \<exists>r' \<in> set rs. vals r c = vals r' c"
  by (auto simp: escalado_def standard_scaler_def split: if_splits)

lemma preparar_dados_read:
  "preparar_dados e caminho features = Inr (d, fv) \<Longrightarrow> \<exists>raw. read_csv e caminho = Inr raw"
  by (cases "read_csv e caminho") (simp_all add: preparar_dados_def)

lemma preparar_dados_rows:
  assumes "read_csv e p = Inr raw" and "preparar_dados e p feats = Inr (d, fv)"
  shows "fv = filter (\<lambda>f. f \<in> set (columns raw)) feats"
    and "rows d = add_target (escalado e fv (map (parse_row e) (filter (linha_completa fv) (rows raw))))"
  using assms limpeza [of fv "map (parse_row e) (rows raw)"]
  by (auto simp: preparar_dados_def Let_def escalado_def filter_completa_parse split: if_splits)

subsection \<open>The label\<close>

lemma next_in_group_none:
  "\<forall>r \<in> set rs. Ticker r \<noteq> Some t \<Longrightarrow> next_in_group t rs = NaN"
  by (induction rs) simp_all

lemma next_in_group_first:
  "j < length rs \<Longrightarrow> Ticker (rs ! j) = Some t \<Longrightarrow> \<forall>k<j. Ticker (rs ! k) \<noteq> Some t \<Longrightarrow>
   next_in_group t rs = vals (rs ! j) ''Adj Close''"
proof (induction rs arbitrary: j)
  case Nil
  then show ?case by simp
next
  case (Cons r rs)
  show ?case
  proof (cases j)
    case 0
    with Cons.prems show ?thesis by simp
  next
    case (Suc j')
    with Cons.prems have "Ticker r \<noteq> Some t" by auto
    moreover from Suc Cons.prems have "next_in_group t rs = vals (rs ! j') ''Adj Close''"
      by (intro Cons.IH) auto
    ultimately show ?thesis using Suc by simp
  qed
qed

lemma next_in_group_range:
  "next_in_group t rs = NaN \<or> (\<exists>r \<in> set rs. next_in_group t rs = vals r ''Adj Close'')"
  by (induction rs) auto

lemma next_in_group_filter:
  "next_in_group t rs =
     (case filter (\<lambda>x. Ticker x = Some t) rs of [] \<Rightarrow> NaN | x # xs \<Rightarrow> vals x ''Adj Close'')"
  by (induction rs) simp_all

lemma shift_m1_nth:
  "i < length rs \<Longrightarrow>
   shift_m1 rs ! i =
     (case Ticker (rs ! i) of None \<Rightarrow> NaN | Some t \<Rightarrow> next_in_group t (drop (Suc i) rs))"
proof (induction rs arbitrary: i)
  case Nil
  then show ?case by simp
next
  case (Cons r rs)
  then show ?case by (cases i) (simp_all split: option.split)
qed

lemma shift_m1_range:
  "i < length rs \<Longrightarrow>
   shift_m1 rs ! i = NaN \<or> (\<exists>r \<in> set rs. shift_m1 rs ! i = vals r ''Adj Close'')"
proof -
  assume i: "i < length rs"
  show ?thesis
  proof (cases "Ticker (rs ! i)")
    case None
    with i show ?thesis by (simp add: shift_m1_nth)
  next
    case (Some t)
    from next_in_group_range [of t "drop (Suc i) rs"] Some i show ?thesis
      by (auto simp: shift_m1_nth dest: in_set_dropD)
  qed
qed

lemma fgt_NaN [simp]: "fgt NaN x = False"
  by (cases x) simp_all

lemma Ticker_nth_add_target [simp]:
  "i < length rs \<Longrightarrow> Ticker (add_target rs ! i) = Ticker (rs ! i)"
  by (simp add: nth_add_target set_target_def)

lemma Adj_nth_add_target [simp]:
  "i < length rs \<Longrightarrow> vals (add_target rs ! i) ''Adj Close'' = vals (rs ! i) ''Adj Close''"
  by (simp add: nth_add_target set_target_def)

lemma Adj_add_target:
  "map (\<lambda>r. vals r ''Adj Close'') (add_target rs) = map (\<lambda>r. vals r ''Adj Close'') rs"
  by (rule nth_equalityI) simp_all

lemma Target_nth_add_target:
  "i < length rs \<Longrightarrow>
   vals (add_target rs ! i) ''Target'' =
     (if fgt (shift_m1 rs ! i) (vals (rs ! i) ''Adj Close'') then Fin 1 else Fin 0)"
  by (simp add: nth_add_target set_target_def)

lemma add_target_next:
  assumes "i < j" and "j < length rs"
    and "Ticker (rs ! i) = Some t" and "Ticker (rs ! j) = Some t"
    and "\<forall>k. i < k \<and> k < j \<longrightarrow> Ticker (rs ! k) \<noteq> Some t"
  shows "vals (add_target rs ! i) ''Target'' =
           (if fgt (vals (rs ! j) ''Adj Close'') (vals (rs ! i) ''Adj Close'')
            then Fin 1 else Fin 0)"
proof -
  let ?ds = "drop (Suc i) rs"
  have j: "j - Suc i < length ?ds" using assms by simp
  have jt: "Ticker (?ds ! (j - Suc i)) = Some t" using assms by simp
  have "\<forall>k < j - Suc i. Ticker (?ds ! k) \<noteq> Some t"
  proof (intro allI impI)
    fix k assume "k < j - Suc i"
    then have "i < Suc i + k \<and> Suc i + k < j" by arith
    with assms(5) have "Ticker (rs ! (Suc i + k)) \<noteq> Some t" by blast
    then show "Ticker (?ds ! k) \<noteq> Some t" using assms(1,2) by simp
  qed
  from next_in_group_first [OF j jt this]
  have "next_in_group t ?ds = vals (rs ! j) ''Adj Close''" using assms by simp
  moreover have "i < length rs" using assms by simp
  ultimately show ?thesis
    using assms(3) by (simp add: Target_nth_add_target shift_m1_nth)
qed

lemma add_target_last:
  assumes "i < length rs"
    and "Ticker (rs ! i) = None \<or> (\<forall>j. i < j \<and> j < length rs \<longrightarrow> Ticker (rs ! j) \<noteq> Ticker (rs ! i))"
  shows "vals (add_target rs ! i) ''Target'' = Fin 0"
proof (cases "Ticker (rs ! i)")
  case None
  with assms(1) show ?thesis by (simp add: Target_nth_add_target shift_m1_nth)
next
  case (Some t)
  with assms(2) have a: "\<forall>j. i < j \<and> j < length rs \<longrightarrow> Ticker (rs ! j) \<noteq> Some t" by simp
  have "\<forall>r \<in> set (drop (Suc i) rs). Ticker r \<noteq> Some t"
  proof
    fix r assume "r \<in> set (drop (Suc i) rs)"
    then obtain k where k: "k < length rs - Suc i" "r = drop (Suc i) rs ! k"
      by (auto simp: in_set_conv_nth)
    then have "r = rs ! (Suc i + k)" using assms(1) by simp
    moreover from k have "i < Suc i + k \<and> Suc i + k < length rs" by arith
    ultimately show "Ticker r \<noteq> Some t" using a by blast
  qed
  then have "next_in_group t (drop (Suc i) rs) = NaN" by (rule next_in_group_none)
  with Some assms(1) show ?thesis by (simp add: Target_nth_add_target shift_m1_nth)
qed

lemma add_target_const:
  assumes "\<forall>r \<in> set rs. vals r ''Adj Close'' = Fin p"
  shows "map (\<lambda>r. vals r ''Target'') (add_target rs) = replicate (length rs) (Fin 0)"
proof (rule nth_equalityI)
  show "length (map (\<lambda>r. vals r ''Target'') (add_target rs)) = length (replicate (length rs) (Fin 0))"
    by simp
next
  fix i assume "i < length (map (\<lambda>r. vals r ''Target'') (add_target rs))"
  then have i: "i < length rs" by simp
  from shift_m1_range [OF i] assms
  have "shift_m1 rs ! i = NaN \<or> shift_m1 rs ! i = Fin p" by auto
  moreover have "vals (rs ! i) ''Adj Close'' = Fin p" using assms i by simp
  ultimately have "\<not> fgt (shift_m1 rs ! i) (vals (rs ! i) ''Adj Close'')" by auto
  then show "map (\<lambda>r. vals r ''Target'') (add_target rs) ! i = replicate (length rs) (Fin 0) ! i"
    using i by (simp add: Target_nth_add_target)
qed

lemma Target_proxima_linha:
  assumes prep: "preparar_dados e caminho features = Inr (d, fv)"
    and i: "i < length (rows d)"
  shows "(\<forall>j. i < j \<and> j < length (rows d) \<and> Ticker (rows d ! i) \<noteq> None \<and>
              Ticker (rows d ! j) = Ticker (rows d ! i) \<and>
              (\<forall>k. i < k \<and> k < j \<longrightarrow> Ticker (rows d ! k) \<noteq> Ticker (rows d ! i)) \<longrightarrow>
              vals (rows d ! i) ''Target'' =
                (if fgt (vals (rows d ! j) ''Adj Close'') (vals (rows d ! i) ''Adj Close'')
                 then Fin 1 else Fin 0)) \<and>
         (Ticker (rows d ! i) = None \<or>
          (\<forall>j. i < j \<and> j < length (rows d) \<longrightarrow> Ticker (rows d ! j) \<noteq> Ticker (rows d ! i)) \<longrightarrow>
          vals (rows d ! i) ''Target'' = Fin 0)"
proof -
  from preparar_dados_read [OF prep] obtain raw where raw: "read_csv e caminho = Inr raw" ..
  let ?rs = "escalado e fv (map (parse_row e) (filter (linha_completa fv) (rows raw)))"
  have d: "rows d = add_target ?rs" by (rule preparar_dados_rows(2) [OF raw prep])
  from i have i': "i < length ?rs" by (simp add: d)
  have tk: "\<And>k. k < length ?rs \<Longrightarrow> Ticker (rows d ! k) = Ticker (?rs ! k)"
    by (simp add: d)
  have adj: "\<And>k. k < length ?rs \<Longrightarrow> vals (rows d ! k) ''Adj Close'' = vals (?rs ! k) ''Adj Close''"
    by (simp add: d)
  have len: "length (rows d) = length ?rs" by (simp add: d)
  have first: "\<forall>j. i < j \<and> j < length (rows d) \<and> Ticker (rows d ! i) \<noteq> None \<and>
              Ticker (rows d ! j) = Ticker (rows d ! i) \<and>
              (\<forall>k. i < k \<and> k < j \<longrightarrow> Ticker (rows d ! k) \<noteq> Ticker (rows d ! i)) \<longrightarrow>
              vals (rows d ! i) ''Target'' =
                (if fgt (vals (rows d ! j) ''Adj Close'') (vals (rows d ! i) ''Adj Close'')
                 then Fin 1 else Fin 0)"
  proof (intro allI impI, elim conjE)
    fix j
    assume ij: "i < j" and j: "j < length (rows d)"
      and some: "Ticker (rows d ! i) \<noteq> None"
      and same: "Ticker (rows d ! j) = Ticker (rows d ! i)"
      and between: "\<forall>k. i < k \<and> k < j \<longrightarrow> Ticker (rows d ! k) \<noteq> Ticker (rows d ! i)"
    from some obtain t where t: "Ticker (rows d ! i) = Some t" by auto
    from j have j': "j < length ?rs" by (simp add: len)
    have ti: "Ticker (?rs ! i) = Some t" using t tk [OF i'] by simp
    have tj: "Ticker (?rs ! j) = Some t" using t same tk [OF j'] by simp
    have bt: "\<forall>k. i < k \<and> k < j \<longrightarrow> Ticker (?rs ! k) \<noteq> Some t"
    proof (intro allI impI)
      fix k assume k: "i < k \<and> k < j"
      then have "k < length ?rs" using j' by simp
      from tk [OF this] between k t show "Ticker (?rs ! k) \<noteq> Some t" by metis
    qed
    from add_target_next [OF ij j' ti tj bt]
    show "vals (rows d ! i) ''Target'' =
                (if fgt (vals (rows d ! j) ''Adj Close'') (vals (rows d ! i) ''Adj Close'')
                 then Fin 1 else Fin 0)"
      using adj [OF i'] adj [OF j'] by (simp add: d)
  qed
  have lastr: "Ticker (rows d ! i) = None \<or>
          (\<forall>j. i < j \<and> j < length (rows d) \<longrightarrow> Ticker (rows d ! j) \<noteq> Ticker (rows d ! i)) \<longrightarrow>
          vals (rows d ! i) ''Target'' = Fin 0"
  proof
    assume a: "Ticker (rows d ! i) = None \<or>
          (\<forall>j. i < j \<and> j < length (rows d) \<longrightarrow> Ticker (rows d ! j) \<noteq> Ticker (rows d ! i))"
    have "Ticker (?rs ! i) = None \<or>
          (\<forall>j. i < j \<and> j < length ?rs \<longrightarrow> Ticker (?rs ! j) \<noteq> Ticker (?rs ! i))"
      using a tk i' len by auto
    from add_target_last [OF i' this] show "vals (rows d ! i) ''Target'' = Fin 0"
      by (simp add: d)
  qed
  from first lastr show ?thesis by blast
qed

text \<open>
  When every instrument's rows are in the order of their dates, the next row of the same
  ticker is the chronologically next observation.
\<close>

lemma depois_irrefl [simp]: "\<not> depois a a"
  by (simp add: depois_def split: option.splits)

lemma depois_asym: "depois a b \<Longrightarrow> \<not> depois b a"
  by (auto simp: depois_def split: option.splits)

lemma depois_trans: "depois a b \<Longrightarrow> depois b c \<Longrightarrow> depois a c"
  by (auto simp: depois_def split: option.splits)

lemma fold_earliest:
  "\<forall>y \<in> set xs. depois (Date y) (Date x) \<Longrightarrow>
   fold (\<lambda>y m. if depois (Date m) (Date y) then y else m) xs x = x"
proof (induction xs)
  case Nil
  then show ?case by simp
next
  case (Cons y ys)
  then have "\<not> depois (Date x) (Date y)" by (auto dest: depois_asym)
  with Cons show ?case by simp
qed

lemma candidatas:
  assumes "ordem_cronologica rs" and "i < length rs" and "Ticker (rs ! i) = Some t"
  shows "filter (\<lambda>x. Ticker (rs ! i) \<noteq> None \<and> Ticker x = Ticker (rs ! i) \<and>
                     depois (Date x) (Date (rs ! i))) rs =
         filter (\<lambda>x. Ticker x = Some t) (drop (Suc i) rs)"
proof -
  let ?P = "\<lambda>x. Ticker (rs ! i) \<noteq> None \<and> Ticker x = Ticker (rs ! i) \<and> depois (Date x) (Date (rs ! i))"
  have a: "filter ?P (take (Suc i) rs) = []"
  proof -
    have "\<not> ?P x" if "x \<in> set (take (Suc i) rs)" for x
    proof -
      from that obtain j where j: "j < Suc i" "j < length rs" "x = rs ! j"
        by (auto simp: in_set_conv_nth)
      show ?thesis
      proof (cases "j = i")
        case True
        with j show ?thesis by simp
      next
        case False
        with j have ji: "j < i" by simp
        show ?thesis
        proof
          assume p: "?P x"
          then have "Ticker (rs ! j) \<noteq> None" "Ticker (rs ! i) = Ticker (rs ! j)" using j by auto
          with assms(1,2) ji have "depois (Date (rs ! i)) (Date (rs ! j))"
            unfolding ordem_cronologica_def by blast
          with p j show False by (auto dest: depois_asym)
        qed
      qed
    qed
    then show ?thesis by (simp add: filter_empty_conv)
  qed
  have b: "filter ?P (drop (Suc i) rs) = filter (\<lambda>x. Ticker x = Some t) (drop (Suc i) rs)"
  proof (rule filter_cong [OF refl])
    fix x assume "x \<in> set (drop (Suc i) rs)"
    then obtain k where k: "k < length rs - Suc i" "x = drop (Suc i) rs ! k"
      by (auto simp: in_set_conv_nth)
    then have x: "x = rs ! (Suc i + k)" and lt: "i < Suc i + k" "Suc i + k < length rs"
      using assms(2) by auto
    show "?P x = (Ticker x = Some t)"
    proof
      assume "?P x" then show "Ticker x = Some t" using assms(3) by simp
    next
      assume tx: "Ticker x = Some t"
      with assms(1,3) lt x have "depois (Date x) (Date (rs ! i))"
        unfolding ordem_cronologica_def by (metis option.distinct(1))
      with tx assms(3) show "?P x" by simp
    qed
  qed
  have "filter ?P rs = filter ?P (take (Suc i) rs) @ filter ?P (drop (Suc i) rs)"
    by (metis append_take_drop_id filter_append)
  with a b show ?thesis by simp
qed

lemma ordem_filter_later:
  assumes "ordem_cronologica rs" and "i < length rs"
    and "filter (\<lambda>x. Ticker x = Some t) (drop (Suc i) rs) = x # xs"
  shows "\<forall>y \<in> set xs. depois (Date y) (Date x)"
proof
  fix y assume y: "y \<in> set xs"
  let ?ds = "drop (Suc i) rs"
  from assms(3) obtain as bs where ds: "?ds = as @ x # bs" and
    xs: "xs = filter (\<lambda>x. Ticker x = Some t) bs" and tx: "Ticker x = Some t"
    by (metis (mono_tags, lifting) filter_eq_Cons_iff)
  from y xs have yb: "y \<in> set bs" and ty: "Ticker y = Some t" by auto
  then obtain k where k: "k < length bs" "y = bs ! k" by (auto simp: in_set_conv_nth)
  let ?a = "Suc i + length as" and ?b = "Suc i + length as + Suc k"
  have len: "length ?ds = length as + Suc (length bs)" using ds by simp
  then have lb: "?b < length rs" using k by simp
  have "rs ! ?a = ?ds ! length as" using lb by simp
  then have ra: "rs ! ?a = x" using ds by simp
  have "rs ! ?b = ?ds ! (length as + Suc k)" using lb by (simp add: add.assoc)
  then have rb: "rs ! ?b = y" using ds k by (simp add: nth_append)
  have "?a < ?b" by simp
  with assms(1) lb ra rb tx ty show "depois (Date y) (Date x)"
    unfolding ordem_cronologica_def by (metis option.distinct(1))
qed

lemma Target_spec_ordem:
  assumes "ordem_cronologica rs" and "i < length rs"
  shows "Target_spec rs (rs ! i) =
           (if fgt (shift_m1 rs ! i) (vals (rs ! i) ''Adj Close'') then Fin 1 else Fin 0)"
proof (cases "Ticker (rs ! i)")
  case None
  then show ?thesis using assms(2)
    by (simp add: Target_spec_def proxima_cronologica_def shift_m1_nth)
next
  case (Some t)
  note c = candidatas [OF assms Some]
  show ?thesis
  proof (cases "filter (\<lambda>x. Ticker x = Some t) (drop (Suc i) rs)")
    case Nil
    with c Some assms(2) show ?thesis
      by (simp add: Target_spec_def proxima_cronologica_def shift_m1_nth next_in_group_filter)
  next
    case (Cons x xs)
    from fold_earliest [OF ordem_filter_later [OF assms Cons]]
    have "proxima_cronologica rs (rs ! i) = Some x"
      unfolding proxima_cronologica_def c Cons by simp
    with Cons Some assms(2) show ?thesis
      by (simp add: Target_spec_def shift_m1_nth next_in_group_filter)
  qed
qed

lemma next_in_group_cong:
  "map Ticker xs = map Ticker ys \<Longrightarrow>
   map (\<lambda>r. vals r ''Adj Close'') xs = map (\<lambda>r. vals r ''Adj Close'') ys \<Longrightarrow>
   next_in_group t xs = next_in_group t ys"
proof (induction xs arbitrary: ys)
  case Nil
  then show ?case by simp
next
  case (Cons x xs)
  then obtain y ys' where ys: "ys = y # ys'" by (cases ys) auto
  with Cons.prems Cons.IH [of ys'] show ?case by simp
qed

lemma shift_m1_cong:
  "map Ticker xs = map Ticker ys \<Longrightarrow>
   map (\<lambda>r. vals r ''Adj Close'') xs = map (\<lambda>r. vals r ''Adj Close'') ys \<Longrightarrow>
   shift_m1 xs = shift_m1 ys"
proof (induction xs arbitrary: ys)
  case Nil
  then show ?case by simp
next
  case (Cons x xs)
  then obtain y ys' where ys: "ys = y # ys'" by (cases ys) auto
  with Cons.prems Cons.IH [of ys'] next_in_group_cong [of xs ys']
  show ?case by (simp split: option.split)
qed

lemma shift_m1_add_target: "shift_m1 (add_target rs) = shift_m1 rs"
  by (rule shift_m1_cong) (simp_all add: Adj_add_target)

lemma alvos_ordem:
  assumes "preparar_dados e caminho features = Inr (d, fv)"
    and "ordem_cronologica (rows d)"
  shows "alvos d = alvos_spec d"
proof -
  from preparar_dados_read [OF assms(1)] obtain raw where raw: "read_csv e caminho = Inr raw" ..
  let ?rs = "escalado e fv (map (parse_row e) (filter (linha_completa fv) (rows raw)))"
  have d: "rows d = add_target ?rs" by (rule preparar_dados_rows(2) [OF raw assms(1)])
  show ?thesis
    unfolding alvos_def alvos_spec_def
  proof (rule nth_equalityI)
    show "length (map (\<lambda>r. vals r ''Target'') (rows d)) =
          length (map (Target_spec (rows d)) (rows d))" by simp
  next
    fix i assume "i < length (map (\<lambda>r. vals r ''Target'') (rows d))"
    then have i: "i < length (rows d)" by simp
    then have i': "i < length ?rs" by (simp add: d)
    have "Target_spec (rows d) (rows d ! i) =
           (if fgt (shift_m1 (rows d) ! i) (vals (rows d ! i) ''Adj Close'') then Fin 1 else Fin 0)"
      by (rule Target_spec_ordem [OF assms(2) i])
    also have "\<dots> = (if fgt (shift_m1 ?rs ! i) (vals (?rs ! i) ''Adj Close'') then Fin 1 else Fin 0)"
      using i' by (simp add: d shift_m1_add_target)
    also have "\<dots> = vals (rows d ! i) ''Target''"
      using i' by (simp add: d Target_nth_add_target)
    finally show "map (\<lambda>r. vals r ''Target'') (rows d) ! i = map (Target_spec (rows d)) (rows d) ! i"
      using i by simp
  qed
qed

subsection \<open>The example files\<close>

lemmas ex_defs = env_ex_def read_csv_ex_def to_datetime_ex_def linha_ex_def csv_ex_def
  curto_csv_def ordem_csv_def data_ruim_csv_def

lemmas prep_defs = preparar_dados_def Let_def parse_row_def dropna_def inf_any_def
  replace_inf_def standard_scaler_def add_target_def set_target_def

lemma curto_visao:
  "map_option visao (preparado env_ex ''dados_transformados/curto.csv'' [''RSI'']) =
     Some [(Some 1704067200000000000, Some ''PETR4'', Fin 10, Fin 1),
           (Some 1704153600000000000, Some ''PETR4'', Fin 20, Fin 0)]"
  by (simp add: preparado_def visao_def ex_defs prep_defs)

lemma data_ruim_visao:
  "map_option visao (preparado env_ex ''dados_transformados/data_ruim.csv'' [''RSI'']) =
     Some [(None, Some ''PETR4'', Fin 10, Fin 1),
           (Some 1704153600000000000, Some ''PETR4'', Fin 20, Fin 0)]"
  by (simp add: preparado_def visao_def ex_defs prep_defs)

lemma ordem_alvos:
  "map_option alvos (preparado env_ex ''dados_transformados/ordem.csv'' [''RSI'']) =
     Some [Fin 1, Fin 0]"
  by (simp add: preparado_def alvos_def ex_defs prep_defs)

lemma ordem_alvos_spec:
  "map_option alvos_spec (preparado env_ex ''dados_transformados/ordem.csv'' [''RSI'']) =
     Some [Fin 0, Fin 0]"
  by (simp add: preparado_def alvos_spec_def Target_spec_def proxima_cronologica_def depois_def
      ex_defs prep_defs)

lemma read_curto: "read_csv env_ex ''dados_transformados/curto.csv'' = Inr curto_csv"
  by (simp add: env_ex_def read_csv_ex_def)

lemma prep_curto:
  "preparar_dados env_ex ''dados_transformados/curto.csv'' [''RSI''] = Inr (curto_preparado, [''RSI''])"
  by (simp add: curto_preparado_def preparar_dados_def read_curto Let_def curto_csv_def csv_ex_def)

lemma curto_rows:
  "length (rows curto_preparado) = 2"
  "Ticker (rows curto_preparado ! 0) = Some ''PETR4''"
  "Ticker (rows curto_preparado ! Suc 0) = Some ''PETR4''"
  "vals (rows curto_preparado ! 0) ''Adj Close'' = Fin 10"
  "vals (rows curto_preparado ! Suc 0) ''Adj Close'' = Fin 20"
proof -
  have v: "visao curto_preparado =
     [(Some 1704067200000000000, Some ''PETR4'', Fin 10, Fin 1),
      (Some 1704153600000000000, Some ''PETR4'', Fin 20, Fin 0)]"
    using curto_visao by (simp add: preparado_def prep_curto)
  have "length (visao curto_preparado) = 2" by (simp add: v)
  then show l: "length (rows curto_preparado) = 2" by (simp add: visao_def)
  have "visao curto_preparado ! 0 = (Some 1704067200000000000, Some ''PETR4'', Fin 10, Fin 1)"
    by (simp add: v)
  then show "Ticker (rows curto_preparado ! 0) = Some ''PETR4''"
    and "vals (rows curto_preparado ! 0) ''Adj Close'' = Fin 10"
    using l by (simp_all add: visao_def)
  have "visao curto_preparado ! Suc 0 = (Some 1704153600000000000, Some ''PETR4'', Fin 20, Fin 0)"
    by (simp add: v)
  then show "Ticker (rows curto_preparado ! Suc 0) = Some ''PETR4''"
    and "vals (rows curto_preparado ! Suc 0) ''Adj Close'' = Fin 20"
    using l by (simp_all add: visao_def)
qed

lemma curto_dates:
  "Date (rows curto_preparado ! 0) = Some 1704067200000000000"
  "Date (rows curto_preparado ! Suc 0) = Some 1704153600000000000"
proof -
  have v: "visao curto_preparado =
     [(Some 1704067200000000000, Some ''PETR4'', Fin 10, Fin 1),
      (Some 1704153600000000000, Some ''PETR4'', Fin 20, Fin 0)]"
    using curto_visao by (simp add: preparado_def prep_curto)
  have "visao curto_preparado ! 0 = (Some 1704067200000000000, Some ''PETR4'', Fin 10, Fin 1)"
    by (simp add: v)
  then show "Date (rows curto_preparado ! 0) = Some 1704067200000000000"
    using curto_rows(1) by (simp add: visao_def)
  have "visao curto_preparado ! Suc 0 = (Some 1704153600000000000, Some ''PETR4'', Fin 20, Fin 0)"
    by (simp add: v)
  then show "Date (rows curto_preparado ! Suc 0) = Some 1704153600000000000"
    using curto_rows(1) by (simp add: visao_def)
qed

lemma curto_ordem: "ordem_cronologica (rows curto_preparado)"
  unfolding ordem_cronologica_def curto_rows(1)
proof (intro allI impI)
  fix i j :: nat
  assume "i < j \<and> j < 2 \<and> Ticker (rows curto_preparado ! i) \<noteq> None \<and>
          Ticker (rows curto_preparado ! j) = Ticker (rows curto_preparado ! i)"
  then have "i = 0" "j = Suc 0" by auto
  then show "depois (Date (rows curto_preparado ! j)) (Date (rows curto_preparado ! i))"
    by (simp add: curto_dates depois_def)
qed

lemma read_data_ruim: "read_csv env_ex ''dados_transformados/data_ruim.csv'' = Inr data_ruim_csv"
  by (simp add: env_ex_def read_csv_ex_def)

lemma prep_data_ruim:
  "preparar_dados env_ex ''dados_transformados/data_ruim.csv'' [''RSI''] =
     Inr (data_ruim_preparado, [''RSI''])"
  by (simp add: data_ruim_preparado_def preparar_dados_def read_data_ruim Let_def
      data_ruim_csv_def csv_ex_def)

lemma df_recente_dated: "r \<in> set (df_recente d meses) \<Longrightarrow> Date r \<noteq> None"
  by (cases "Date r") (auto simp: df_recente_def)

subsection \<open>The claims on preparar\_dados\<close>

text \<open>
  C1, as stated, fails: \<^verbatim>\<open>curto.csv\<close> has one instrument with the rows of 2024-01-01 and
  2024-01-02, and the prepared data frame still holds the row of 2024-01-02, the last of
  its group, with the label 0.
\<close>

theorem preparar_dados_last_row_counterexample:
  "map_option visao (preparado env_ex ''dados_transformados/curto.csv'' [''RSI'']) =
     Some [(Some 1704067200000000000, Some ''PETR4'', Fin 10, Fin 1),
           (Some 1704153600000000000, Some ''PETR4'', Fin 20, Fin 0)]"
  by (rule curto_visao)

text \<open>
  C1, amended: \<open>preparar_dados\<close> removes no row when it adds the label. The prepared rows
  are, in order, the complete rows of the file, so the last row of every instrument
  group stays; a row with no later row of its ticker has the label 0.
\<close>

theorem preparar_dados_keeps_last_row:
  assumes "read_csv e caminho = Inr raw"
    and "preparar_dados e caminho features = Inr (d, fv)"
  shows "map Ticker (rows d) = map Ticker (filter (linha_completa fv) (rows raw)) \<and>
         (\<forall>i < length (rows d).
            (\<forall>j. i < j \<and> j < length (rows d) \<longrightarrow> Ticker (rows d ! j) \<noteq> Ticker (rows d ! i)) \<longrightarrow>
            vals (rows d ! i) ''Target'' = Fin 0)"
proof -
  let ?rs = "escalado e fv (map (parse_row e) (filter (linha_completa fv) (rows raw)))"
  have d: "rows d = add_target ?rs" by (rule preparar_dados_rows(2) [OF assms])
  have "map Ticker (rows d) = map Ticker (filter (linha_completa fv) (rows raw))"
    by (simp add: d comp_def parse_row_def)
  moreover have "\<forall>i < length (rows d).
            (\<forall>j. i < j \<and> j < length (rows d) \<longrightarrow> Ticker (rows d ! j) \<noteq> Ticker (rows d ! i)) \<longrightarrow>
            vals (rows d ! i) ''Target'' = Fin 0"
  proof (intro allI impI)
    fix i
    assume i: "i < length (rows d)"
      and last: "\<forall>j. i < j \<and> j < length (rows d) \<longrightarrow> Ticker (rows d ! j) \<noteq> Ticker (rows d ! i)"
    from i have i': "i < length ?rs" by (simp add: d)
    have "\<forall>j. i < j \<and> j < length ?rs \<longrightarrow> Ticker (?rs ! j) \<noteq> Ticker (?rs ! i)"
    proof (intro allI impI)
      fix j assume j: "i < j \<and> j < length ?rs"
      with last have "Ticker (rows d ! j) \<noteq> Ticker (rows d ! i)" by (simp add: d)
      with j i' show "Ticker (?rs ! j) \<noteq> Ticker (?rs ! i)" by (simp add: d)
    qed
    then show "vals (rows d ! i) ''Target'' = Fin 0"
      using add_target_last [OF i'] by (simp add: d)
  qed
  ultimately show ?thesis by blast
qed

theorem preparar_dados_keeps_last_row_witness:
  "read_csv env_ex ''dados_transformados/curto.csv'' = Inr curto_csv \<and>
   preparar_dados env_ex ''dados_transformados/curto.csv'' [''RSI''] = Inr (curto_preparado, [''RSI'']) \<and>
   map Ticker (rows curto_preparado) = [Some ''PETR4'', Some ''PETR4''] \<and>
   vals (rows curto_preparado ! 1) ''Target'' = Fin 0"
proof -
  note t = preparar_dados_keeps_last_row [OF read_curto prep_curto]
  have tk: "map Ticker (rows curto_preparado) = [Some ''PETR4'', Some ''PETR4'']"
    using t by (simp add: curto_csv_def csv_ex_def linha_ex_def linha_completa_def)
  then have len: "length (rows curto_preparado) = 2"
    by (metis length_map length_Cons list.size(3) numeral_2_eq_2)
  have "vals (rows curto_preparado ! 1) ''Target'' = Fin 0"
  proof (rule t [THEN conjunct2, rule_format])
    show "1 < length (rows curto_preparado)" by (simp add: len)
  next
    fix j assume "1 < j \<and> j < length (rows curto_preparado)"
    then have False unfolding len by arith
    then show "Ticker (rows curto_preparado ! j) \<noteq> Ticker (rows curto_preparado ! 1)" ..
  qed
  with tk read_curto prep_curto show ?thesis by simp
qed

text \<open>
  C3, as stated, fails: the first row of \<^verbatim>\<open>data_ruim.csv\<close> has a date that does not parse,
  and the prepared data frame holds it, with a missing date.
\<close>

theorem preparar_dados_missing_date_counterexample:
  "map_option visao (preparado env_ex ''dados_transformados/data_ruim.csv'' [''RSI'']) =
     Some [(None, Some ''PETR4'', Fin 10, Fin 1),
           (Some 1704153600000000000, Some ''PETR4'', Fin 20, Fin 0)]"
  by (rule data_ruim_visao)

text \<open>
  C3, amended: \<open>preparar_dados\<close> does not drop a row for its date. The dates of the
  prepared rows are the parsed dates, missing where the text did not parse, of the
  complete rows of the file, and completeness looks at the valid features and at
  \<^verbatim>\<open>Adj Close\<close> only. A row with a missing date is left out later, by the window
  restriction of \<open>treinar_avaliar\<close>, which selects dated rows only.
\<close>

theorem preparar_dados_keeps_missing_dates:
  assumes "read_csv e caminho = Inr raw"
    and "preparar_dados e caminho features = Inr (d, fv)"
  shows "map Date (rows d) =
           map (\<lambda>r. Date (parse_row e r)) (filter (linha_completa fv) (rows raw)) \<and>
         (\<forall>r \<in> set (df_recente d meses). Date r \<noteq> None)"
proof -
  have "rows d = add_target (escalado e fv (map (parse_row e) (filter (linha_completa fv) (rows raw))))"
    by (rule preparar_dados_rows(2) [OF assms])
  then have "map Date (rows d) =
           map (\<lambda>r. Date (parse_row e r)) (filter (linha_completa fv) (rows raw))"
    by (simp add: comp_def)
  then show ?thesis using df_recente_dated by blast
qed

theorem preparar_dados_keeps_missing_dates_witness:
  "read_csv env_ex ''dados_transformados/data_ruim.csv'' = Inr data_ruim_csv \<and>
   preparar_dados env_ex ''dados_transformados/data_ruim.csv'' [''RSI''] =
     Inr (data_ruim_preparado, [''RSI'']) \<and>
   map Date (rows data_ruim_preparado) = [None, Some 1704153600000000000] \<and>
   list_all (\<lambda>r. Date r \<noteq> None) (df_recente data_ruim_preparado 3)"
  using preparar_dados_keeps_missing_dates [OF read_data_ruim prep_data_ruim, of 3]
    read_data_ruim prep_data_ruim
  by (simp add: data_ruim_csv_def csv_ex_def linha_ex_def linha_completa_def parse_row_def
      env_ex_def to_datetime_ex_def list_all_iff)

text \<open>
  C4, as stated, fails: in \<^verbatim>\<open>ordem.csv\<close> the row of 2024-01-02 (price 10) comes before the
  row of 2024-01-01 (price 20). The code compares the first row with the row below it and
  labels it 1; no observation is chronologically after it, so the specification's wording
  gives it 0.
\<close>

theorem preparar_dados_Target_chronological_counterexample:
  "map_option alvos (preparado env_ex ''dados_transformados/ordem.csv'' [''RSI'']) =
     Some [Fin 1, Fin 0] \<and>
   map_option alvos_spec (preparado env_ex ''dados_transformados/ordem.csv'' [''RSI'']) =
     Some [Fin 0, Fin 0]"
  using ordem_alvos ordem_alvos_spec by simp

text \<open>
  C4, amended: the label of a prepared row is 1 if the next row below it with the same
  ticker has a strictly greater \<^verbatim>\<open>Adj Close\<close>, else 0; it is 0 when no row below it has its
  ticker or when its ticker is missing. The next row is taken in the order of the rows,
  within the same ticker, and the dates are not looked at; when the rows of every
  instrument stand in strictly ascending order of their dates, the labels are those of
  the specification's wording, against the chronologically next observation.
\<close>

theorem preparar_dados_Target_next_row:
  assumes prep: "preparar_dados e caminho features = Inr (d, fv)"
    and i: "i < length (rows d)"
  shows "(\<forall>j. i < j \<and> j < length (rows d) \<and> Ticker (rows d ! i) \<noteq> None \<and>
              Ticker (rows d ! j) = Ticker (rows d ! i) \<and>
              (\<forall>k. i < k \<and> k < j \<longrightarrow> Ticker (rows d ! k) \<noteq> Ticker (rows d ! i)) \<longrightarrow>
              vals (rows d ! i) ''Target'' =
                (if fgt (vals (rows d ! j) ''Adj Close'') (vals (rows d ! i) ''Adj Close'')
                 then Fin 1 else Fin 0)) \<and>
         (Ticker (rows d ! i) = None \<or>
          (\<forall>j. i < j \<and> j < length (rows d) \<longrightarrow> Ticker (rows d ! j) \<noteq> Ticker (rows d ! i)) \<longrightarrow>
          vals (rows d ! i) ''Target'' = Fin 0) \<and>
         (ordem_cronologica (rows d) \<longrightarrow> alvos d = alvos_spec d)"
  using Target_proxima_linha [OF prep i] alvos_ordem [OF prep] by blast

theorem preparar_dados_Target_next_row_witness:
  "preparar_dados env_ex ''dados_transformados/curto.csv'' [''RSI''] = Inr (curto_preparado, [''RSI'']) \<and>
   0 < length (rows curto_preparado) \<and> Suc 0 < length (rows curto_preparado) \<and>
   Ticker (rows curto_preparado ! Suc 0) = Ticker (rows curto_preparado ! 0) \<and>
   vals (rows curto_preparado ! 0) ''Target'' = Fin 1 \<and>
   vals (rows curto_preparado ! Suc 0) ''Target'' = Fin 0 \<and>
   ordem_cronologica (rows curto_preparado) \<and>
   alvos curto_preparado = alvos_spec curto_preparado"
proof -
  have l0: "0 < length (rows curto_preparado)" and l1: "Suc 0 < length (rows curto_preparado)"
    by (simp_all add: curto_rows)
  note t0 = preparar_dados_Target_next_row [OF prep_curto l0]
  note t1 = preparar_dados_Target_next_row [OF prep_curto l1]
  have "vals (rows curto_preparado ! 0) ''Target'' =
          (if fgt (vals (rows curto_preparado ! Suc 0) ''Adj Close'')
                  (vals (rows curto_preparado ! 0) ''Adj Close'') then Fin 1 else Fin 0)"
  proof (rule t0 [THEN conjunct1, rule_format], intro conjI allI impI)
    fix k :: nat assume "0 < k \<and> k < Suc 0"
    then have False by arith
    then show "Ticker (rows curto_preparado ! k) \<noteq> Ticker (rows curto_preparado ! 0)" ..
  qed (simp_all add: curto_rows)
  then have a: "vals (rows curto_preparado ! 0) ''Target'' = Fin 1"
    by (simp add: curto_rows)
  have "\<forall>j. Suc 0 < j \<and> j < length (rows curto_preparado) \<longrightarrow>
          Ticker (rows curto_preparado ! j) \<noteq> Ticker (rows curto_preparado ! Suc 0)"
    unfolding curto_rows(1) by arith
  with t1 have b: "vals (rows curto_preparado ! Suc 0) ''Target'' = Fin 0" by blast
  from t0 curto_ordem have c: "alvos curto_preparado = alvos_spec curto_preparado" by blast
  from a b c l0 l1 prep_curto curto_ordem show ?thesis by (simp add: curto_rows)
qed

section \<open>Properties of treinar\_avaliar\<close>

text \<open>
  The latest date and the window restriction.
\<close>

lemma dates_set:
  "set (concat (map (\<lambda>r. case Date r of None \<Rightarrow> [] | Some t \<Rightarrow> [t]) rs)) =
     {t. \<exists>r \<in> set rs. Date r = Some t}"
  by (induction rs) (auto split: option.splits)

lemma date_max_Some:
  "date_max rs = Some mx \<longleftrightarrow>
     (\<exists>r \<in> set rs. Date r = Some mx) \<and> (\<forall>r \<in> set rs. \<forall>t. Date r = Some t \<longrightarrow> t \<le> mx)"
proof -
  define ds where "ds = concat (map (\<lambda>r. case Date r of None \<Rightarrow> [] | Some t \<Rightarrow> [t]) rs)"
  have dm: "date_max rs = (case ds of [] \<Rightarrow> None | t # ts \<Rightarrow> Some (fold max ts t))"
    by (simp add: date_max_def ds_def)
  have set_ds: "set ds = {t. \<exists>r \<in> set rs. Date r = Some t}"
    unfolding ds_def by (rule dates_set)
  show ?thesis
  proof (cases ds)
    case Nil
    then have "set ds = {}" by simp
    then have "\<forall>r \<in> set rs. Date r \<noteq> Some mx" unfolding set_ds by blast
    moreover have "date_max rs = None" using Nil dm by simp
    ultimately show ?thesis by auto
  next
    case (Cons t ts)
    have "Max (set (t # ts)) = fold max ts t" by (rule Max.set_eq_fold)
    with Cons have m: "date_max rs = Some (Max (set ds))"
      by (simp only: dm list.case)
    have ne: "set ds \<noteq> {}" using Cons by simp
    have fin: "finite (set ds)" by simp
    show ?thesis
    proof
      assume "date_max rs = Some mx"
      with m have mx: "mx = Max (set ds)" by simp
      from Max_in [OF fin ne] mx have "mx \<in> set ds" by simp
      moreover have "\<forall>t \<in> set ds. t \<le> mx" using mx fin by simp
      ultimately show "(\<exists>r \<in> set rs. Date r = Some mx) \<and>
          (\<forall>r \<in> set rs. \<forall>t. Date r = Some t \<longrightarrow> t \<le> mx)"
        unfolding set_ds by auto
    next
      assume a: "(\<exists>r \<in> set rs. Date r = Some mx) \<and>
          (\<forall>r \<in> set rs. \<forall>t. Date r = Some t \<longrightarrow> t \<le> mx)"
      then have "mx \<in> set ds" and "\<forall>t \<in> set ds. t \<le> mx"
        unfolding set_ds by auto
      then have "Max (set ds) = mx" using fin by (intro Max_eqI) auto
      with m show "date_max rs = Some mx" by simp
    qed
  qed
qed

lemma date_max_None: "date_max rs = None \<longleftrightarrow> (\<forall>r \<in> set rs. Date r = None)"
proof -
  define ds where "ds = concat (map (\<lambda>r. case Date r of None \<Rightarrow> [] | Some t \<Rightarrow> [t]) rs)"
  have dm: "date_max rs = (case ds of [] \<Rightarrow> None | t # ts \<Rightarrow> Some (fold max ts t))"
    by (simp add: date_max_def ds_def)
  have set_ds: "set ds = {t. \<exists>r \<in> set rs. Date r = Some t}"
    unfolding ds_def by (rule dates_set)
  have "date_max rs = None \<longleftrightarrow> ds = []"
    by (cases ds) (simp_all add: dm)
  also have "\<dots> \<longleftrightarrow> set ds = {}" by (rule set_empty [symmetric])
  also have "\<dots> \<longleftrightarrow> (\<forall>r \<in> set rs. Date r = None)"
  proof
    assume "set ds = {}"
    then have "\<forall>r \<in> set rs. \<forall>t. Date r \<noteq> Some t" unfolding set_ds by auto
    then show "\<forall>r \<in> set rs. Date r = None" by auto
  next
    assume "\<forall>r \<in> set rs. Date r = None"
    then show "set ds = {}" unfolding set_ds by auto
  qed
  finally show ?thesis .
qed

lemma df_recente_cutoff:
  "r \<in> set (df_recente d meses) \<longleftrightarrow>
     r \<in> set (rows d) \<and>
     (\<exists>t mx. Date r = Some t \<and> date_max (rows d) = Some mx \<and>
             mx - 30 * meses * 86400000000000 \<le> t)"
proof (cases "Date r")
  case None
  then show ?thesis by (simp add: df_recente_def)
next
  case (Some t)
  then show ?thesis
    by (cases "date_max (rows d)") (auto simp: df_recente_def data_limite_def timedelta_days_def)
qed

lemma df_recente_all:
  assumes "\<forall>r \<in> set (rows d). Date r = Some t" and "0 \<le> m"
  shows "df_recente d m = rows d"
proof (cases "rows d")
  case Nil
  then show ?thesis by (simp add: df_recente_def)
next
  case (Cons r rs)
  then have "\<exists>r \<in> set (rows d). Date r = Some t" using assms(1) by auto
  with assms(1) have "date_max (rows d) = Some t" by (auto simp: date_max_Some)
  then have "data_limite d m = Some (t - timedelta_days (30 * m))"
    by (simp add: data_limite_def)
  moreover have "t - timedelta_days (30 * m) \<le> t" using assms(2) by (simp add: timedelta_days_def)
  ultimately have "\<forall>r \<in> set (rows d). date_ge (Date r) (data_limite d m)"
    using assms(1) by simp
  then show ?thesis by (simp add: df_recente_def)
qed

lemma treinar_not_insufficient: "treinar e d recente features \<noteq> Inr (None, None, None)"
  by (auto simp: treinar_def Let_def split: sum.splits prod.splits)

lemma treinar_avaliar_poucas:
  "length (rows d) < 100 \<Longrightarrow> treinar_avaliar e d fv m 100 = Inr (None, None, None)"
proof -
  assume a: "length (rows d) < 100"
  have "length (df_recente d m) \<le> length (rows d)" by (simp add: df_recente_def)
  with a show ?thesis by (simp add: treinar_avaliar_def Let_def)
qed

lemmas janela_defs = df_recente_def data_limite_def date_max_def timedelta_days_def
  df_ex_def linha_prep_def

lemma df_ex_recente:
  "map Date (df_recente df_ex 3) = [Some 1704067200000000000]"
  "map Date (df_recente df_ex 6) = [Some 1693699200000000000, Some 1704067200000000000]"
  by (simp_all add: janela_defs)

text \<open>
  C6: \<open>treinar_avaliar\<close> returns the triple of absent metrics exactly when the number of
  rows with a date on or after the cutoff is below \<open>min_amostras\<close>. With exactly
  \<open>min_amostras\<close> such rows it goes on to train, and what it then gives is never the
  absent triple; with one row less it returns the absent triple.
\<close>

theorem treinar_avaliar_insufficient_iff:
  "(treinar_avaliar e d features meses min_amostras = Inr (None, None, None) \<longleftrightarrow>
      int (length (df_recente d meses)) < min_amostras) \<and>
   (int (length (df_recente d meses)) = min_amostras \<longrightarrow>
      treinar_avaliar e d features meses min_amostras = treinar e d (df_recente d meses) features \<and>
      treinar_avaliar e d features meses min_amostras \<noteq> Inr (None, None, None)) \<and>
   (int (length (df_recente d meses)) = min_amostras - 1 \<longrightarrow>
      treinar_avaliar e d features meses min_amostras = Inr (None, None, None))"
  using treinar_not_insufficient [of e d "df_recente d meses" features]
  by (simp add: treinar_avaliar_def Let_def)

theorem treinar_avaliar_insufficient_iff_witness:
  "int (length (df_recente df_ex 6)) = 2 \<and>
   treinar_avaliar env_ex df_ex [''RSI''] 6 3 = Inr (None, None, None) \<and>
   treinar_avaliar env_ex df_ex [''RSI''] 6 2 = treinar env_ex df_ex (df_recente df_ex 6) [''RSI''] \<and>
   treinar_avaliar env_ex df_ex [''RSI''] 6 2 \<noteq> Inr (None, None, None)"
proof -
  have l: "int (length (df_recente df_ex 6)) = 2"
    using df_ex_recente(2) by (metis length_map length_Cons list.size(3) of_nat_numeral numeral_2_eq_2)
  from l treinar_avaliar_insufficient_iff [of env_ex df_ex "[''RSI'']" 6 3]
  have a: "treinar_avaliar env_ex df_ex [''RSI''] 6 3 = Inr (None, None, None)" by simp
  from l treinar_avaliar_insufficient_iff [of env_ex df_ex "[''RSI'']" 6 2]
  have b: "treinar_avaliar env_ex df_ex [''RSI''] 6 2 = treinar env_ex df_ex (df_recente df_ex 6) [''RSI''] \<and>
      treinar_avaliar env_ex df_ex [''RSI''] 6 2 \<noteq> Inr (None, None, None)" by blast
  from l a b show ?thesis by blast
qed

text \<open>
  C7: for two window lengths \<open>W1 < W2\<close> on the same data frame, the rows selected for
  \<open>W1\<close> are among the rows selected for \<open>W2\<close>: they are the rows of the longer window
  that also pass the cutoff of the shorter one.
\<close>

theorem df_recente_monotone:
  assumes "W1 < W2"
  shows "df_recente d W1 = filter (\<lambda>r. date_ge (Date r) (data_limite d W1)) (df_recente d W2) \<and>
         set (df_recente d W1) \<subseteq> set (df_recente d W2)"
proof -
  have imp: "date_ge (Date r) (data_limite d W1) \<Longrightarrow> date_ge (Date r) (data_limite d W2)" for r
    using assms
    by (cases "Date r"; cases "date_max (rows d)")
      (auto simp: data_limite_def timedelta_days_def)
  have "filter (\<lambda>r. date_ge (Date r) (data_limite d W1)) (df_recente d W2) =
          filter (\<lambda>r. date_ge (Date r) (data_limite d W1)) (rows d)"
    unfolding df_recente_def filter_filter
    by (rule filter_cong) (auto dest: imp)
  then have "df_recente d W1 = filter (\<lambda>r. date_ge (Date r) (data_limite d W1)) (df_recente d W2)"
    by (simp add: df_recente_def)
  moreover from this have "set (df_recente d W1) \<subseteq> set (df_recente d W2)"
    by (metis filter_is_subset)
  ultimately show ?thesis by simp
qed

theorem df_recente_monotone_witness:
  "(3::int) < 6 \<and>
   map Date (df_recente df_ex 3) = [Some 1704067200000000000] \<and>
   map Date (df_recente df_ex 6) = [Some 1693699200000000000, Some 1704067200000000000] \<and>
   set (df_recente df_ex 3) \<subseteq> set (df_recente df_ex 6)"
proof -
  have "(3::int) < 6" by simp
  from df_recente_monotone [OF this, of df_ex] df_ex_recente show ?thesis by simp
qed

section \<open>Properties of the sweep\<close>

subsection \<open>The loops\<close>

text \<open>
  The loop over the windows, the body of the loop over the files, and the best tracker.
\<close>

lemma janelas_loop_metricas:
  "snd (janelas_loop e d fv arquivo ms b tm) =
     tm @ map (linha_janela e d fv arquivo) (takeWhile (retorna e d fv) ms)"
proof (induction ms arbitrary: b tm)
  case Nil
  then show ?case by simp
next
  case (Cons m ms)
  show ?case
  proof (cases "treinar_avaliar e d fv m 100")
    case (Inl err)
    then show ?thesis by (simp add: retorna_def)
  next
    case (Inr res)
    then show ?thesis by (simp add: Cons.IH retorna_def linha_janela_def)
  qed
qed

lemma janelas_loop_ok:
  "\<forall>m \<in> set ms. retorna e d fv m \<Longrightarrow>
   janelas_loop e d fv arquivo ms b tm =
     (Inr (fold (\<lambda>m b. atualizar_melhor b m (projr (treinar_avaliar e d fv m 100))) ms b),
      tm @ map (linha_janela e d fv arquivo) ms)"
proof (induction ms arbitrary: b tm)
  case Nil
  then show ?case by simp
next
  case (Cons m ms)
  then obtain res where res: "treinar_avaliar e d fv m 100 = Inr res"
    by (cases "treinar_avaliar e d fv m 100") (auto simp: retorna_def)
  from Cons.prems have "\<forall>m \<in> set ms. retorna e d fv m" by simp
  from Cons.IH [OF this] res show ?case by (simp add: linha_janela_def)
qed

lemma janelas_loop_falha:
  assumes "\<forall>w \<in> set pre. retorna e d fv w" and "\<not> retorna e d fv m"
  shows "\<exists>err. janelas_loop e d fv arquivo (pre @ m # post) b tm =
           (Inl err, tm @ map (linha_janela e d fv arquivo) pre)"
  using assms(1)
proof (induction pre arbitrary: b tm)
  case Nil
  from assms(2) obtain err where "treinar_avaliar e d fv m 100 = Inl err"
    by (cases "treinar_avaliar e d fv m 100") (auto simp: retorna_def)
  then show ?case by simp
next
  case (Cons w pre)
  then obtain res where res: "treinar_avaliar e d fv w 100 = Inr res"
    by (cases "treinar_avaliar e d fv w 100") (auto simp: retorna_def)
  from Cons.prems have "\<forall>w \<in> set pre. retorna e d fv w" by simp
  from Cons.IH [OF this, of "atualizar_melhor b w res" "tm @ [linha_metrica arquivo w res]"] res
  show ?case by (simp add: linha_janela_def)
qed

lemma processar_arquivo_metricas:
  "todas_metricas (processar_arquivo e fe arquivo st) =
     todas_metricas st @ metricas_do_arquivo e fe arquivo"
proof (cases "fe arquivo")
  case None
  then show ?thesis by (simp add: processar_arquivo_def metricas_do_arquivo_def)
next
  case (Some features)
  show ?thesis
  proof (cases "preparar_dados e (''dados_transformados/'' @ arquivo) features")
    case (Inl err)
    with Some show ?thesis by (simp add: processar_arquivo_def metricas_do_arquivo_def)
  next
    case (Inr p)
    obtain d fv where p: "p = (d, fv)" by (cases p)
    obtain r tm where l: "janelas_loop e d fv arquivo janelas_meses melhor_inicial (todas_metricas st) = (r, tm)"
      by (cases "janelas_loop e d fv arquivo janelas_meses melhor_inicial (todas_metricas st)")
    from janelas_loop_metricas [of e d fv arquivo janelas_meses melhor_inicial "todas_metricas st"] l
    have tm: "tm = todas_metricas st @ map (linha_janela e d fv arquivo) (takeWhile (retorna e d fv) janelas_meses)"
      by simp
    show ?thesis
      using Some Inr p l tm
      by (cases r) (simp_all add: processar_arquivo_def metricas_do_arquivo_def)
  qed
qed

lemma sweep_metricas:
  "todas_metricas (sweep e fe arquivos st) =
     todas_metricas st @ concat (map (metricas_do_arquivo e fe) arquivos)"
  by (induction arquivos arbitrary: st) (simp_all add: processar_arquivo_metricas)

lemma processar_arquivo_ok:
  assumes "fe arquivo = Some features"
    and "preparar_dados e (''dados_transformados/'' @ arquivo) features = Inr (d, fv)"
    and "fv \<noteq> []" and "rows d \<noteq> []"
    and "\<forall>m \<in> set janelas_meses. retorna e d fv m"
  shows "processar_arquivo e fe arquivo st =
           \<lparr>resultados = resultados st @
              [(let b = fold (\<lambda>m b. atualizar_melhor b m (projr (treinar_avaliar e d fv m 100)))
                          janelas_meses melhor_inicial
                in \<lparr>Dataset = arquivo, Melhor_Janela = melhor_janela b,
                     Melhor_ROC_AUC = Some (melhor_roc b),
                     Melhor_Accuracy = melhor_acc b, Melhor_F1_Score = melhor_f1 b\<rparr>)],
            todas_metricas = todas_metricas st @ map (linha_janela e d fv arquivo) janelas_meses\<rparr>"
  using assms(1-4) janelas_loop_ok [OF assms(5), of arquivo melhor_inicial "todas_metricas st"]
  by (simp add: processar_arquivo_def Let_def)

lemma processar_arquivo_falha:
  assumes "fe arquivo = Some features"
    and "preparar_dados e (''dados_transformados/'' @ arquivo) features = Inr (d, fv)"
    and "fv \<noteq> []" and "rows d \<noteq> []"
    and "janelas_meses = pre @ m # post"
    and "\<forall>w \<in> set pre. retorna e d fv w" and "\<not> retorna e d fv m"
  shows "processar_arquivo e fe arquivo st =
           st\<lparr>todas_metricas := todas_metricas st @ map (linha_janela e d fv arquivo) pre\<rparr>"
proof -
  from janelas_loop_falha [OF assms(6,7), of arquivo post melhor_inicial "todas_metricas st"]
  obtain err where "janelas_loop e d fv arquivo janelas_meses melhor_inicial (todas_metricas st) =
           (Inl err, todas_metricas st @ map (linha_janela e d fv arquivo) pre)"
    using assms(5) by auto
  with assms(1-4) show ?thesis by (simp add: processar_arquivo_def)
qed

lemma atualizar_melhor_ausente: "atualizar_melhor b m (None, None, None) = b"
  by (simp add: atualizar_melhor_def)

lemma fold_insuficiente:
  "\<forall>m \<in> set ms. treinar_avaliar e d fv m 100 = Inr (None, None, None) \<Longrightarrow>
   fold (\<lambda>m b. atualizar_melhor b m (projr (treinar_avaliar e d fv m 100))) ms b = b"
  by (induction ms arbitrary: b) (simp_all add: atualizar_melhor_ausente)

lemma processar_arquivo_insuficiente:
  assumes "fe arquivo = Some features"
    and "preparar_dados e (''dados_transformados/'' @ arquivo) features = Inr (d, fv)"
    and "fv \<noteq> []" and "rows d \<noteq> []"
    and "\<forall>m \<in> set janelas_meses. treinar_avaliar e d fv m 100 = Inr (None, None, None)"
  shows "resultados (processar_arquivo e fe arquivo st) =
           resultados st @
             [\<lparr>Dataset = arquivo, Melhor_Janela = None, Melhor_ROC_AUC = Some (Fin 0),
               Melhor_Accuracy = Some (Fin 0), Melhor_F1_Score = Some (Fin 0)\<rparr>]"
proof -
  from assms(5) have "\<forall>m \<in> set janelas_meses. retorna e d fv m"
    by (simp add: retorna_def)
  from processar_arquivo_ok [where fe = fe and arquivo = arquivo and st = st, OF assms(1-4) this]
    fold_insuficiente [OF assms(5)]
  show ?thesis by (simp add: melhor_inicial_def)
qed

subsection \<open>The best tracker\<close>

lemma fgt_irrefl [simp]: "\<not> fgt x x"
  by (cases x) simp_all

lemma fgt_asym: "fgt a b \<Longrightarrow> \<not> fgt b a"
  by (cases a; cases b) simp_all

lemma fgt_trans: "fgt a b \<Longrightarrow> fgt b c \<Longrightarrow> fgt a c"
  by (cases a; cases b; cases c) simp_all

lemma fgt_not_fgt: "fgt r b \<Longrightarrow> \<not> fgt r0 b \<Longrightarrow> \<not> fge r0 r"
  by (cases r; cases b; cases r0) (simp_all add: fge_def)

lemma fgt_not_fgt': "fgt r b \<Longrightarrow> \<not> fgt r0 b \<Longrightarrow> \<not> fgt r0 r"
  by (cases r; cases b; cases r0) simp_all

lemma fgt_not_fge: "fgt a b \<Longrightarrow> \<not> fge b a"
  by (simp add: fge_def)

lemma atualizar_melhor_cases:
  "(atualizar_melhor b0 m (acc, f1, roc) = b0 \<and> (\<forall>r. roc = Some r \<longrightarrow> \<not> fgt r (melhor_roc b0))) \<or>
   (\<exists>r. roc = Some r \<and> fgt r (melhor_roc b0) \<and>
        atualizar_melhor b0 m (acc, f1, roc) =
          \<lparr>melhor_roc = r, melhor_acc = acc, melhor_f1 = f1,
           melhor_janela = Some (formatar_nome_janela m)\<rparr>)"
  by (cases roc) (simp_all add: atualizar_melhor_def)

lemma janelas_loop_melhor:
  assumes "janelas_loop e d fv arquivo ms b0 tm = (Inr b, tm')"
  shows "(b = b0 \<and> (\<forall>w \<in> set ms. \<forall>r. roc_da_janela e d fv w = Some r \<longrightarrow> \<not> fgt r (melhor_roc b0))) \<or>
         (\<exists>pre m post. ms = pre @ m # post \<and>
            treinar_avaliar e d fv m 100 = Inr (melhor_acc b, melhor_f1 b, Some (melhor_roc b)) \<and>
            melhor_janela b = Some (formatar_nome_janela m) \<and>
            fgt (melhor_roc b) (melhor_roc b0) \<and>
            (\<forall>w \<in> set pre. \<forall>r. roc_da_janela e d fv w = Some r \<longrightarrow> \<not> fge r (melhor_roc b)) \<and>
            (\<forall>w \<in> set ms. \<forall>r. roc_da_janela e d fv w = Some r \<longrightarrow> \<not> fgt r (melhor_roc b)))"
  using assms
proof (induction ms arbitrary: b0 tm)
  case Nil
  then show ?case by simp
next
  case (Cons m ms)
  from Cons.prems obtain acc f1 roc where res: "treinar_avaliar e d fv m 100 = Inr (acc, f1, roc)"
    by (cases "treinar_avaliar e d fv m 100") auto
  let ?b1 = "atualizar_melhor b0 m (acc, f1, roc)"
  from Cons.prems res
  have loop: "janelas_loop e d fv arquivo ms ?b1 (tm @ [linha_metrica arquivo m (acc, f1, roc)]) = (Inr b, tm')"
    by simp
  have rocm: "roc_da_janela e d fv m = roc" by (simp add: roc_da_janela_def res)
  note IH = Cons.IH [OF loop]
  from atualizar_melhor_cases [of b0 m acc f1 roc] show ?case
  proof
    assume keep: "?b1 = b0 \<and> (\<forall>r. roc = Some r \<longrightarrow> \<not> fgt r (melhor_roc b0))"
    from IH show ?thesis
    proof
      assume "b = ?b1 \<and> (\<forall>w \<in> set ms. \<forall>r. roc_da_janela e d fv w = Some r \<longrightarrow> \<not> fgt r (melhor_roc ?b1))"
      with keep rocm show ?thesis by auto
    next
      assume "\<exists>pre m' post. ms = pre @ m' # post \<and>
            treinar_avaliar e d fv m' 100 = Inr (melhor_acc b, melhor_f1 b, Some (melhor_roc b)) \<and>
            melhor_janela b = Some (formatar_nome_janela m') \<and>
            fgt (melhor_roc b) (melhor_roc ?b1) \<and>
            (\<forall>w \<in> set pre. \<forall>r. roc_da_janela e d fv w = Some r \<longrightarrow> \<not> fge r (melhor_roc b)) \<and>
            (\<forall>w \<in> set ms. \<forall>r. roc_da_janela e d fv w = Some r \<longrightarrow> \<not> fgt r (melhor_roc b))"
      then obtain pre m' post where ms: "ms = pre @ m' # post"
        and ev: "treinar_avaliar e d fv m' 100 = Inr (melhor_acc b, melhor_f1 b, Some (melhor_roc b))"
        and jn: "melhor_janela b = Some (formatar_nome_janela m')"
        and gt: "fgt (melhor_roc b) (melhor_roc ?b1)"
        and before: "\<forall>w \<in> set pre. \<forall>r. roc_da_janela e d fv w = Some r \<longrightarrow> \<not> fge r (melhor_roc b)"
        and all: "\<forall>w \<in> set ms. \<forall>r. roc_da_janela e d fv w = Some r \<longrightarrow> \<not> fgt r (melhor_roc b)"
        by blast
      from gt keep have gt0: "fgt (melhor_roc b) (melhor_roc b0)" by simp
      have m1: "\<forall>r. roc = Some r \<longrightarrow> \<not> fge r (melhor_roc b)"
        using keep gt0 fgt_not_fgt by blast
      have m2: "\<forall>r. roc = Some r \<longrightarrow> \<not> fgt r (melhor_roc b)"
        using keep gt0 fgt_not_fgt' by blast
      have "m # ms = (m # pre) @ m' # post" using ms by simp
      moreover have "\<forall>w \<in> set (m # pre). \<forall>r. roc_da_janela e d fv w = Some r \<longrightarrow> \<not> fge r (melhor_roc b)"
        using before m1 rocm by simp
      moreover have "\<forall>w \<in> set (m # ms). \<forall>r. roc_da_janela e d fv w = Some r \<longrightarrow> \<not> fgt r (melhor_roc b)"
        using all m2 rocm by simp
      ultimately show ?thesis using ev jn gt0 by blast
    qed
  next
    assume "\<exists>r. roc = Some r \<and> fgt r (melhor_roc b0) \<and>
        ?b1 = \<lparr>melhor_roc = r, melhor_acc = acc, melhor_f1 = f1,
           melhor_janela = Some (formatar_nome_janela m)\<rparr>"
    then obtain r where r: "roc = Some r" and gtr: "fgt r (melhor_roc b0)"
      and b1: "?b1 = \<lparr>melhor_roc = r, melhor_acc = acc, melhor_f1 = f1,
           melhor_janela = Some (formatar_nome_janela m)\<rparr>"
      by blast
    have r1: "melhor_roc ?b1 = r" by (simp add: b1)
    from IH show ?thesis
    proof
      assume a: "b = ?b1 \<and> (\<forall>w \<in> set ms. \<forall>r. roc_da_janela e d fv w = Some r \<longrightarrow> \<not> fgt r (melhor_roc ?b1))"
      then have bb: "b = \<lparr>melhor_roc = r, melhor_acc = acc, melhor_f1 = f1,
           melhor_janela = Some (formatar_nome_janela m)\<rparr>" using b1 by simp
      have "m # ms = [] @ m # ms" by simp
      moreover have "treinar_avaliar e d fv m 100 = Inr (melhor_acc b, melhor_f1 b, Some (melhor_roc b))"
        using res r bb by simp
      moreover have "melhor_janela b = Some (formatar_nome_janela m)" using bb by simp
      moreover have "fgt (melhor_roc b) (melhor_roc b0)" using bb gtr by simp
      moreover have "\<forall>w \<in> set (m # ms). \<forall>r'. roc_da_janela e d fv w = Some r' \<longrightarrow> \<not> fgt r' (melhor_roc b)"
        using a r1 rocm r bb by auto
      ultimately show ?thesis by (metis empty_iff list.set(1))
    next
      assume "\<exists>pre m' post. ms = pre @ m' # post \<and>
            treinar_avaliar e d fv m' 100 = Inr (melhor_acc b, melhor_f1 b, Some (melhor_roc b)) \<and>
            melhor_janela b = Some (formatar_nome_janela m') \<and>
            fgt (melhor_roc b) (melhor_roc ?b1) \<and>
            (\<forall>w \<in> set pre. \<forall>r. roc_da_janela e d fv w = Some r \<longrightarrow> \<not> fge r (melhor_roc b)) \<and>
            (\<forall>w \<in> set ms. \<forall>r. roc_da_janela e d fv w = Some r \<longrightarrow> \<not> fgt r (melhor_roc b))"
      then obtain pre m' post where ms: "ms = pre @ m' # post"
        and ev: "treinar_avaliar e d fv m' 100 = Inr (melhor_acc b, melhor_f1 b, Some (melhor_roc b))"
        and jn: "melhor_janela b = Some (formatar_nome_janela m')"
        and gt: "fgt (melhor_roc b) (melhor_roc ?b1)"
        and before: "\<forall>w \<in> set pre. \<forall>r. roc_da_janela e d fv w = Some r \<longrightarrow> \<not> fge r (melhor_roc b)"
        and all: "\<forall>w \<in> set ms. \<forall>r. roc_da_janela e d fv w = Some r \<longrightarrow> \<not> fgt r (melhor_roc b)"
        by blast
      from gt r1 have gt1: "fgt (melhor_roc b) r" by simp
      from fgt_trans [OF gt1 gtr] have gt0: "fgt (melhor_roc b) (melhor_roc b0)" .
      have m1: "\<not> fge r (melhor_roc b)" using gt1 by (rule fgt_not_fge)
      have m2: "\<not> fgt r (melhor_roc b)" using gt1 by (rule fgt_asym)
      have "m # ms = (m # pre) @ m' # post" using ms by simp
      moreover have "\<forall>w \<in> set (m # pre). \<forall>r. roc_da_janela e d fv w = Some r \<longrightarrow> \<not> fge r (melhor_roc b)"
        using before m1 rocm r by simp
      moreover have "\<forall>w \<in> set (m # ms). \<forall>r. roc_da_janela e d fv w = Some r \<longrightarrow> \<not> fgt r (melhor_roc b)"
        using all m2 rocm r by simp
      ultimately show ?thesis using ev jn gt0 by blast
    qed
  qed
qed

subsection \<open>A test slice of one class\<close>

lemma uma_classe_iff: "uma_classe y \<longleftrightarrow> (\<forall>a \<in> set y. \<forall>b \<in> set y. a = b)"
proof (cases y)
  case Nil
  then show ?thesis by (simp add: uma_classe_def)
next
  case (Cons c cs)
  have "list_all (\<lambda>x. x = c) cs \<longleftrightarrow> (\<forall>a \<in> set (c # cs). \<forall>b \<in> set (c # cs). a = b)"
    unfolding list_all_iff
  proof
    assume a: "\<forall>x \<in> set cs. x = c"
    then have "\<forall>a \<in> set (c # cs). a = c" by simp
    then show "\<forall>a \<in> set (c # cs). \<forall>b \<in> set (c # cs). a = b" by metis
  next
    assume "\<forall>a \<in> set (c # cs). \<forall>b \<in> set (c # cs). a = b"
    then show "\<forall>x \<in> set cs. x = c" by simp
  qed
  with Cons show ?thesis by (simp add: uma_classe_def)
qed

lemma treinar_uma_classe:
  assumes "\<forall>y probs. uma_classe y \<longrightarrow> isl (roc_auc_score e y probs)"
    and "uma_classe (y_teste d m)"
  shows "isl (treinar e d (df_recente d m) fv)"
proof -
  have "\<And>probs x. roc_auc_score e (y_teste d m) probs \<noteq> Inr x"
    using assms by (metis sum.disc(2))
  then show ?thesis
    by (auto simp: treinar_def y_teste_def train_test_split_def Let_def
        split: sum.splits prod.splits if_splits)
qed

lemma treinar_avaliar_uma_classe:
  assumes "\<forall>y probs. uma_classe y \<longrightarrow> isl (roc_auc_score e y probs)"
    and "100 \<le> length (df_recente d m)"
    and "uma_classe (y_teste d m)"
  shows "\<not> retorna e d fv m"
  using treinar_uma_classe [OF assms(1,3), of fv] assms(2)
  by (simp add: retorna_def treinar_avaliar_def Let_def)

subsection \<open>The example files in the sweep\<close>

lemma read_constante:
  "read_csv env_ex ''dados_transformados/constante.csv'' = Inr constante_csv"
  by (simp add: env_ex_def read_csv_ex_def)

lemma prep_constante:
  "preparar_dados env_ex ''dados_transformados/constante.csv'' [''RSI''] =
     Inr (constante_preparado, [''RSI''])"
  by (simp add: constante_preparado_def preparar_dados_def read_constante Let_def
      constante_csv_def csv_ex_def)

lemma constante_rows:
  "rows constante_preparado =
     add_target (escalado env_ex [''RSI'']
       (replicate 100 (parse_row env_ex (linha_ex ''2024-01-01'' ''PETR4'' 10))))"
proof -
  have "linha_completa [''RSI''] (linha_ex ''2024-01-01'' ''PETR4'' 10)"
    by (simp add: linha_completa_def linha_ex_def)
  then have "filter (linha_completa [''RSI'']) (rows constante_csv) =
      replicate 100 (linha_ex ''2024-01-01'' ''PETR4'' 10)"
    by (simp add: constante_csv_def csv_ex_def filter_replicate)
  with preparar_dados_rows(2) [OF read_constante prep_constante] show ?thesis by simp
qed

lemma constante_length: "length (rows constante_preparado) = 100"
  by (simp add: constante_rows)

lemma constante_dates:
  "r \<in> set (rows constante_preparado) \<Longrightarrow> Date r = Some 1704067200000000000"
proof -
  assume "r \<in> set (rows constante_preparado)"
  then have "Date r \<in> set (map Date (rows constante_preparado))" by simp
  also have "map Date (rows constante_preparado) = replicate 100 (Some 1704067200000000000)"
    by (simp add: constante_rows parse_row_def linha_ex_def env_ex_def to_datetime_ex_def)
  finally show ?thesis by simp
qed

lemma constante_recente: "0 \<le> m \<Longrightarrow> df_recente constante_preparado m = rows constante_preparado"
  using constante_dates by (intro df_recente_all) auto

lemma constante_alvos:
  "map (\<lambda>r. vals r ''Target'') (rows constante_preparado) = replicate 100 (Fin 0)"
proof -
  let ?rs = "escalado env_ex [''RSI'']
       (replicate 100 (parse_row env_ex (linha_ex ''2024-01-01'' ''PETR4'' 10)))"
  have "\<forall>r \<in> set ?rs. vals r ''Adj Close'' = Fin 10"
  proof
    fix r assume "r \<in> set ?rs"
    from vals_escalado [OF _ this, of "''Adj Close''"]
    show "vals r ''Adj Close'' = Fin 10" by (simp add: parse_row_def linha_ex_def)
  qed
  from add_target_const [OF this] show ?thesis by (simp add: constante_rows)
qed

lemma constante_uma_classe: "uma_classe (y_teste constante_preparado 3)"
  by (simp add: y_teste_def constante_recente constante_alvos constante_length uma_classe_iff)

lemma roc_env_ex: "\<forall>y probs. uma_classe y \<longrightarrow> isl (roc_auc_score env_ex y probs)"
  by (simp add: env_ex_def)

lemma constante_falha: "\<not> retorna env_ex constante_preparado [''RSI''] 3"
  by (rule treinar_avaliar_uma_classe [OF roc_env_ex _ constante_uma_classe])
    (simp add: constante_recente constante_length)

lemma janelas_meses_split: "janelas_meses = [] @ 3 # [6, 9, 12, 24, 36]"
  by (simp add: janelas_meses_def)

lemma feats_ex_simps:
  "feats_ex ''curto.csv'' = Some [''RSI'']"
  "feats_ex ''constante.csv'' = Some [''RSI'']"
  by (simp_all add: feats_ex_def)

lemma endswith_ex:
  "endswith ''curto.csv'' ''.csv''" "endswith ''constante.csv'' ''.csv''"
  by (simp_all add: endswith_def)

lemma prep_curto': 
  "preparar_dados env_ex (''dados_transformados/'' @ ''curto.csv'') [''RSI''] = Inr (curto_preparado, [''RSI''])"
  using prep_curto by simp

lemma prep_constante': 
  "preparar_dados env_ex (''dados_transformados/'' @ ''constante.csv'') [''RSI''] = Inr (constante_preparado, [''RSI''])"
  using prep_constante by simp

lemma curto_insuficiente:
  "treinar_avaliar env_ex curto_preparado [''RSI''] m 100 = Inr (None, None, None)"
  by (rule treinar_avaliar_poucas) (simp add: curto_rows)

lemma curto_nonempty: "rows curto_preparado \<noteq> []"
  using curto_rows(1) by auto

lemma constante_nonempty: "rows constante_preparado \<noteq> []"
  using constante_length by auto

lemma main_constante:
  "main env_ex [''constante.csv''] feats_ex = \<lparr>resultados = [], todas_metricas = []\<rparr>"
proof -
  have "processar_arquivo env_ex feats_ex ''constante.csv'' \<lparr>resultados = [], todas_metricas = []\<rparr> =
          \<lparr>resultados = [], todas_metricas = []\<rparr>"
    using processar_arquivo_falha [where fe = feats_ex and arquivo = "''constante.csv''"
        and st = "\<lparr>resultados = [], todas_metricas = []\<rparr>" and pre = "[]",
        OF feats_ex_simps(2) prep_constante' _ constante_nonempty janelas_meses_split _ constante_falha]
    by simp
  then show ?thesis by (simp add: main_def endswith_ex)
qed

lemma main_curto:
  "main env_ex [''curto.csv''] feats_ex =
     \<lparr>resultados = [\<lparr>Dataset = ''curto.csv'', Melhor_Janela = None, Melhor_ROC_AUC = Some (Fin 0),
                      Melhor_Accuracy = Some (Fin 0), Melhor_F1_Score = Some (Fin 0)\<rparr>],
      todas_metricas =
        [\<lparr>Dataset = ''curto.csv'', Janela = ''3m'', ROC_AUC = None, Accuracy = None, F1_Score = None\<rparr>,
         \<lparr>Dataset = ''curto.csv'', Janela = ''6m'', ROC_AUC = None, Accuracy = None, F1_Score = None\<rparr>,
         \<lparr>Dataset = ''curto.csv'', Janela = ''9m'', ROC_AUC = None, Accuracy = None, F1_Score = None\<rparr>,
         \<lparr>Dataset = ''curto.csv'', Janela = ''1a'', ROC_AUC = None, Accuracy = None, F1_Score = None\<rparr>,
         \<lparr>Dataset = ''curto.csv'', Janela = ''2a'', ROC_AUC = None, Accuracy = None, F1_Score = None\<rparr>,
         \<lparr>Dataset = ''curto.csv'', Janela = ''3a'', ROC_AUC = None, Accuracy = None, F1_Score = None\<rparr>]\<rparr>"
proof -
  have ok: "\<forall>m \<in> set janelas_meses. retorna env_ex curto_preparado [''RSI''] m"
    by (simp add: retorna_def curto_insuficiente)
  have f: "fold (\<lambda>m b. atualizar_melhor b m (projr (treinar_avaliar env_ex curto_preparado [''RSI''] m 100)))
             janelas_meses melhor_inicial = melhor_inicial"
    by (rule fold_insuficiente) (simp add: curto_insuficiente)
  from processar_arquivo_ok [where fe = feats_ex and arquivo = "''curto.csv''"
        and st = "\<lparr>resultados = [], todas_metricas = []\<rparr>",
        OF feats_ex_simps(1) prep_curto' _ curto_nonempty ok]
  show ?thesis
    by (simp add: main_def endswith_ex f melhor_inicial_def linha_janela_def curto_insuficiente
        linha_metrica_def janelas_meses_def formatar_nome_janela_def str_int_def str_nat_digit
        digit_char_def atualizar_melhor_ausente Let_def)
qed

lemma grande_recente: "0 \<le> m \<Longrightarrow> df_recente df_grande m = rows df_grande"
  by (rule df_recente_all [where t = 1704067200000000000])
    (auto simp: df_grande_def linha_prep_def)

lemma grande_alvos:
  "map (\<lambda>r. vals r ''Target'') (rows df_grande) = concat (replicate 50 [Fin 1, Fin 0])"
  by (simp add: df_grande_def linha_prep_def map_concat)

lemma grande_length: "length (rows df_grande) = 100"
  by (simp add: df_grande_def length_concat sum_list_replicate)

lemma grande_y_test:
  "drop 80 (map (\<lambda>r. vals r ''Target'') (rows df_grande)) = concat (replicate 10 [Fin 1, Fin 0])"
  unfolding grande_alvos by (simp add: eval_nat_numeral)

lemma grande_treinar:
  "treinar env_ex df_grande (rows df_grande) [''RSI''] =
     Inr (Some (Fin (1 / 2)), Some (Fin 0), Some (Fin (1 / 2)))"
proof -
  define X where "X = map (\<lambda>r. map (vals r) [''RSI'']) (rows df_grande)"
  define y where "y = map (\<lambda>r. vals r ''Target'') (rows df_grande)"
  have cols: "list_all (\<lambda>f. f \<in> set (columns df_grande)) [''RSI'']" "''Target'' \<in> set (columns df_grande)"
    by (simp_all add: df_grande_def)
  have lX: "length X = 100" by (simp add: X_def grande_length)
  have split: "train_test_split X y = Inr (take 80 X, drop 80 X, take 80 y, drop 80 y)"
    by (simp add: train_test_split_def lX Let_def)
  have yt: "drop 80 y = concat (replicate 10 [Fin 1, Fin 0])"
    unfolding y_def by (rule grande_y_test)
  have "length (drop 80 X) = 20" by (simp add: lX)
  then have cl: "classifier env_ex (take 80 X) (take 80 y) (drop 80 X) =
                 Inr (replicate 20 (Fin 0), replicate 20 (Fin (1 / 2)))"
    by (simp add: env_ex_def map_replicate_const)
  have acc: "accuracy_score env_ex (concat (replicate 10 [Fin 1, Fin 0])) (replicate 20 (Fin 0)) =
               Inr (Fin (1 / 2))"
    by (simp add: env_ex_def eval_nat_numeral)
  have f1: "f1_score env_ex y' preds = Inr (Fin 0)" for y' preds
    by (simp add: env_ex_def)
  have roc: "roc_auc_score env_ex (concat (replicate 10 [Fin 1, Fin 0])) probs = Inr (Fin (1 / 2))" for probs
    by (simp add: env_ex_def uma_classe_def eval_nat_numeral)
  have "treinar env_ex df_grande (rows df_grande) [''RSI''] =
     (case train_test_split X y of
             Inl err \<Rightarrow> Inl err
           | Inr (X_train, X_test, y_train, y_test) \<Rightarrow>
               (case classifier env_ex X_train y_train X_test of
                  Inl err \<Rightarrow> Inl err
                | Inr (preds, probs) \<Rightarrow>
                    (case accuracy_score env_ex y_test preds of
                       Inl err \<Rightarrow> Inl err
                     | Inr acc \<Rightarrow>
                         (case f1_score env_ex y_test preds of
                            Inl err \<Rightarrow> Inl err
                          | Inr f1 \<Rightarrow>
                              (case roc_auc_score env_ex y_test probs of
                                 Inl err \<Rightarrow> Inl err
                               | Inr roc \<Rightarrow> Inr (Some acc, Some f1, Some roc))))))"
    using cols unfolding treinar_def X_def y_def Let_def by simp
  also have "\<dots> = Inr (Some (Fin (1 / 2)), Some (Fin 0), Some (Fin (1 / 2)))"
    by (simp add: split cl yt acc f1 roc)
  finally show ?thesis .
qed

lemma grande_avaliar:
  "0 \<le> m \<Longrightarrow> treinar_avaliar env_ex df_grande [''RSI''] m 100 =
     Inr (Some (Fin (1 / 2)), Some (Fin 0), Some (Fin (1 / 2)))"
  by (simp add: treinar_avaliar_def grande_recente grande_length grande_treinar)

lemma grande_loop:
  "janelas_loop env_ex df_grande [''RSI''] ''grande.csv'' janelas_meses melhor_inicial [] =
     (Inr \<lparr>melhor_roc = Fin (1 / 2), melhor_acc = Some (Fin (1 / 2)), melhor_f1 = Some (Fin 0),
           melhor_janela = Some ''3m''\<rparr>,
      map (linha_janela env_ex df_grande [''RSI''] ''grande.csv'') janelas_meses)"
proof -
  have "\<forall>m \<in> set janelas_meses. retorna env_ex df_grande [''RSI''] m"
    by (simp add: janelas_meses_def retorna_def grande_avaliar)
  from janelas_loop_ok [OF this, of "''grande.csv''" melhor_inicial "[]"] show ?thesis
    by (simp add: janelas_meses_def grande_avaliar atualizar_melhor_def melhor_inicial_def
        formatar_nome_janela_def str_int_def str_nat_digit digit_char_def)
qed













subsection \<open>The claims on the sweep\<close>

text \<open>
  C2, as stated, fails: \<^verbatim>\<open>curto.csv\<close> has two rows, every window is insufficient, and the
  row appended to \<^verbatim>\<open>resultados\<close> has an absent window label but the three metrics 0,
  not absent.
\<close>

theorem best_row_all_absent_counterexample:
  "preparar_dados env_ex ''dados_transformados/curto.csv'' [''RSI''] = Inr (curto_preparado, [''RSI'']) \<and>
   list_all (\<lambda>m. treinar_avaliar env_ex curto_preparado [''RSI''] m 100 = Inr (None, None, None))
     janelas_meses \<and>
   resultados (main env_ex [''curto.csv''] feats_ex) =
     [\<lparr>Dataset = ''curto.csv'', Melhor_Janela = None, Melhor_ROC_AUC = Some (Fin 0),
       Melhor_Accuracy = Some (Fin 0), Melhor_F1_Score = Some (Fin 0)\<rparr>]"
  by (simp add: prep_curto main_curto curto_insuficiente list_all_iff)

text \<open>
  C2, amended: for a dataset that passes validation and whose every candidate window is
  insufficient, the row appended to \<^verbatim>\<open>resultados\<close> has an absent window label, and its
  ROC-AUC, accuracy and F1 are the initial values 0 of the tracker.
\<close>

theorem best_row_when_all_insufficient:
  assumes "fe arquivo = Some features"
    and "preparar_dados e (''dados_transformados/'' @ arquivo) features = Inr (d, fv)"
    and "fv \<noteq> []" and "rows d \<noteq> []"
    and "\<forall>m \<in> set janelas_meses. treinar_avaliar e d fv m 100 = Inr (None, None, None)"
  shows "resultados (processar_arquivo e fe arquivo st) =
           resultados st @
             [\<lparr>Dataset = arquivo, Melhor_Janela = None, Melhor_ROC_AUC = Some (Fin 0),
               Melhor_Accuracy = Some (Fin 0), Melhor_F1_Score = Some (Fin 0)\<rparr>]"
  using assms by (rule processar_arquivo_insuficiente)

theorem best_row_when_all_insufficient_witness:
  "feats_ex ''curto.csv'' = Some [''RSI''] \<and>
   preparar_dados env_ex (''dados_transformados/'' @ ''curto.csv'') [''RSI''] =
     Inr (curto_preparado, [''RSI'']) \<and>
   [''RSI''] \<noteq> [] \<and> rows curto_preparado \<noteq> [] \<and>
   list_all (\<lambda>m. treinar_avaliar env_ex curto_preparado [''RSI''] m 100 = Inr (None, None, None))
     janelas_meses \<and>
   resultados (processar_arquivo env_ex feats_ex ''curto.csv'' \<lparr>resultados = [], todas_metricas = []\<rparr>) =
     [\<lparr>Dataset = ''curto.csv'', Melhor_Janela = None, Melhor_ROC_AUC = Some (Fin 0),
       Melhor_Accuracy = Some (Fin 0), Melhor_F1_Score = Some (Fin 0)\<rparr>]"
proof -
  have a: "\<forall>m \<in> set janelas_meses.
             treinar_avaliar env_ex curto_preparado [''RSI''] m 100 = Inr (None, None, None)"
    by (simp add: curto_insuficiente)
  have ne: "[''RSI''] \<noteq> []" by simp
  from best_row_when_all_insufficient [where fe = feats_ex and arquivo = "''curto.csv''"
      and st = "\<lparr>resultados = [], todas_metricas = []\<rparr>",
      OF feats_ex_simps(1) prep_curto' ne curto_nonempty a]
  show ?thesis
    using feats_ex_simps(1) prep_curto' curto_nonempty a by (simp add: list_all_iff)
qed

text \<open>
  C5: the tracker of a dataset changes only for a window whose ROC-AUC is present and
  strictly greater than the best so far, and a ROC-AUC equal to the best so far leaves it
  as it is. When the loop over the windows ends, either the tracker is still the
  initial one (best ROC-AUC 0, no window) and no window gave a ROC-AUC above 0, or its
  ROC-AUC, accuracy and F1 are the three results of one and the same evaluation, of the
  window whose label it holds; no window tried before that one reached its ROC-AUC, and
  no window at all exceeded it.
\<close>

theorem melhor_first_found_wins:
  assumes "janelas_loop e d fv arquivo ms melhor_inicial tm = (Inr b, tm')"
  shows "(\<forall>b0 m acc f1 roc. atualizar_melhor b0 m (acc, f1, roc) \<noteq> b0 \<longrightarrow>
            (\<exists>r. roc = Some r \<and> fgt r (melhor_roc b0))) \<and>
         (\<forall>b0 m acc f1. atualizar_melhor b0 m (acc, f1, Some (melhor_roc b0)) = b0) \<and>
         ((b = melhor_inicial \<and>
           (\<forall>w \<in> set ms. \<forall>r. roc_da_janela e d fv w = Some r \<longrightarrow> \<not> fgt r (Fin 0))) \<or>
          (\<exists>pre m post. ms = pre @ m # post \<and>
             treinar_avaliar e d fv m 100 = Inr (melhor_acc b, melhor_f1 b, Some (melhor_roc b)) \<and>
             melhor_janela b = Some (formatar_nome_janela m) \<and>
             fgt (melhor_roc b) (Fin 0) \<and>
             (\<forall>w \<in> set pre. \<forall>r. roc_da_janela e d fv w = Some r \<longrightarrow> \<not> fge r (melhor_roc b)) \<and>
             (\<forall>w \<in> set ms. \<forall>r. roc_da_janela e d fv w = Some r \<longrightarrow> \<not> fgt r (melhor_roc b))))"
proof -
  have 1: "\<forall>b0 m acc f1 roc. atualizar_melhor b0 m (acc, f1, roc) \<noteq> b0 \<longrightarrow>
            (\<exists>r. roc = Some r \<and> fgt r (melhor_roc b0))"
    using atualizar_melhor_cases by blast
  have 2: "\<forall>b0 m acc f1. atualizar_melhor b0 m (acc, f1, Some (melhor_roc b0)) = b0"
    by (simp add: atualizar_melhor_def)
  have r0: "melhor_roc melhor_inicial = Fin 0" by (simp add: melhor_inicial_def)
  from janelas_loop_melhor [OF assms] 1 2 show ?thesis unfolding r0 by blast
qed

theorem melhor_first_found_wins_witness:
  "janelas_loop env_ex df_grande [''RSI''] ''grande.csv'' janelas_meses melhor_inicial [] =
     (Inr \<lparr>melhor_roc = Fin (1 / 2), melhor_acc = Some (Fin (1 / 2)), melhor_f1 = Some (Fin 0),
           melhor_janela = Some ''3m''\<rparr>,
      map (linha_janela env_ex df_grande [''RSI''] ''grande.csv'') janelas_meses) \<and>
   treinar_avaliar env_ex df_grande [''RSI''] 3 100 =
     Inr (Some (Fin (1 / 2)), Some (Fin 0), Some (Fin (1 / 2))) \<and>
   treinar_avaliar env_ex df_grande [''RSI''] 6 100 =
     Inr (Some (Fin (1 / 2)), Some (Fin 0), Some (Fin (1 / 2))) \<and>
   atualizar_melhor
     \<lparr>melhor_roc = Fin (1 / 2), melhor_acc = Some (Fin (1 / 2)), melhor_f1 = Some (Fin 0),
      melhor_janela = Some ''3m''\<rparr> 6 (Some (Fin (1 / 2)), Some (Fin 0), Some (Fin (1 / 2))) =
     \<lparr>melhor_roc = Fin (1 / 2), melhor_acc = Some (Fin (1 / 2)), melhor_f1 = Some (Fin 0),
      melhor_janela = Some ''3m''\<rparr>"
proof -
  from melhor_first_found_wins [OF grande_loop]
  have "\<forall>b0 m acc f1. atualizar_melhor b0 m (acc, f1, Some (melhor_roc b0)) = b0" by blast
  from this [rule_format, of "\<lparr>melhor_roc = Fin (1 / 2), melhor_acc = Some (Fin (1 / 2)),
      melhor_f1 = Some (Fin 0), melhor_janela = Some ''3m''\<rparr>" 6 "Some (Fin (1 / 2))" "Some (Fin 0)"]
  show ?thesis using grande_loop by (simp add: grande_avaliar)
qed

text \<open>
  C8, as stated, fails: \<^verbatim>\<open>constante.csv\<close> passes validation (one valid feature, a hundred
  rows), the test slice of its first window has one class, the example ROC-AUC raises as
  scikit-learn's does, and the six candidate windows leave no row in \<^verbatim>\<open>todas_metricas\<close>.
\<close>

theorem todas_metricas_unconditional_counterexample:
  "feats_ex ''constante.csv'' = Some [''RSI''] \<and>
   preparar_dados env_ex ''dados_transformados/constante.csv'' [''RSI''] =
     Inr (constante_preparado, [''RSI'']) \<and>
   length (rows constante_preparado) = 100 \<and>
   length janelas_meses = 6 \<and>
   todas_metricas (main env_ex [''constante.csv''] feats_ex) = []"
  by (simp add: feats_ex_simps prep_constante constante_length main_constante janelas_meses_def)

text \<open>
  C8, amended: \<^verbatim>\<open>todas_metricas\<close> is, file after file in the order of the files, the rows
  of each file; a file that passes validation adds one row for each candidate window in
  the order of the windows, up to the first window whose evaluation raises, so one row
  per candidate window when no evaluation raises. An insufficient window counts as
  returned, and its row has the three metrics absent.
\<close>

theorem todas_metricas_rows:
  "todas_metricas (sweep e fe arquivos st) =
     todas_metricas st @ concat (map (metricas_do_arquivo e fe) arquivos) \<and>
   (fe arquivo = Some features \<and>
    preparar_dados e (''dados_transformados/'' @ arquivo) features = Inr (d, fv) \<and>
    fv \<noteq> [] \<and> rows d \<noteq> [] \<longrightarrow>
      metricas_do_arquivo e fe arquivo =
        map (linha_janela e d fv arquivo) (takeWhile (retorna e d fv) janelas_meses) \<and>
      ((\<forall>m \<in> set janelas_meses. retorna e d fv m) \<longrightarrow>
         metricas_do_arquivo e fe arquivo = map (linha_janela e d fv arquivo) janelas_meses) \<and>
      (\<forall>m. treinar_avaliar e d fv m 100 = Inr (None, None, None) \<longrightarrow>
         retorna e d fv m \<and>
         linha_janela e d fv arquivo m =
           \<lparr>Dataset = arquivo, Janela = formatar_nome_janela m,
            ROC_AUC = None, Accuracy = None, F1_Score = None\<rparr>))"
proof -
  have 1: "todas_metricas (sweep e fe arquivos st) =
     todas_metricas st @ concat (map (metricas_do_arquivo e fe) arquivos)"
    by (rule sweep_metricas)
  have 2: "metricas_do_arquivo e fe arquivo =
        map (linha_janela e d fv arquivo) (takeWhile (retorna e d fv) janelas_meses)"
    if "fe arquivo = Some features"
      and "preparar_dados e (''dados_transformados/'' @ arquivo) features = Inr (d, fv)"
      and "fv \<noteq> []" and "rows d \<noteq> []"
    using that by (simp add: metricas_do_arquivo_def)
  have 3: "takeWhile (retorna e d fv) janelas_meses = janelas_meses"
    if "\<forall>m \<in> set janelas_meses. retorna e d fv m"
    using that by (simp add: takeWhile_eq_all_conv)
  have 4: "retorna e d fv m \<and> linha_janela e d fv arquivo m =
           \<lparr>Dataset = arquivo, Janela = formatar_nome_janela m,
            ROC_AUC = None, Accuracy = None, F1_Score = None\<rparr>"
    if "treinar_avaliar e d fv m 100 = Inr (None, None, None)" for m
    using that by (simp add: retorna_def linha_janela_def linha_metrica_def)
  from 1 2 3 4 show ?thesis by (simp (no_asm_simp))
qed

theorem todas_metricas_rows_witness:
  "feats_ex ''curto.csv'' = Some [''RSI''] \<and>
   preparar_dados env_ex (''dados_transformados/'' @ ''curto.csv'') [''RSI''] =
     Inr (curto_preparado, [''RSI'']) \<and>
   [''RSI''] \<noteq> [] \<and> rows curto_preparado \<noteq> [] \<and>
   list_all (retorna env_ex curto_preparado [''RSI'']) janelas_meses \<and>
   todas_metricas (sweep env_ex feats_ex [''curto.csv''] \<lparr>resultados = [], todas_metricas = []\<rparr>) =
     map (linha_janela env_ex curto_preparado [''RSI''] ''curto.csv'') janelas_meses \<and>
   linha_janela env_ex curto_preparado [''RSI''] ''curto.csv'' 3 =
     \<lparr>Dataset = ''curto.csv'', Janela = ''3m'', ROC_AUC = None, Accuracy = None, F1_Score = None\<rparr>"
proof -
  note t = todas_metricas_rows [where e = env_ex and fe = feats_ex and arquivo = "''curto.csv''"
      and features = "[''RSI'']" and d = curto_preparado and fv = "[''RSI'']"
      and arquivos = "[''curto.csv'']" and st = "\<lparr>resultados = [], todas_metricas = []\<rparr>"]
  have ok: "\<forall>m \<in> set janelas_meses. retorna env_ex curto_preparado [''RSI''] m"
    by (simp add: retorna_def curto_insuficiente)
  have val: "feats_ex ''curto.csv'' = Some [''RSI''] \<and>
    preparar_dados env_ex (''dados_transformados/'' @ ''curto.csv'') [''RSI''] =
      Inr (curto_preparado, [''RSI'']) \<and> [''RSI''] \<noteq> [] \<and> rows curto_preparado \<noteq> []"
    using feats_ex_simps(1) prep_curto' curto_nonempty by simp
  from t val ok have m: "metricas_do_arquivo env_ex feats_ex ''curto.csv'' =
      map (linha_janela env_ex curto_preparado [''RSI''] ''curto.csv'') janelas_meses"
    by blast
  from t have "todas_metricas (sweep env_ex feats_ex [''curto.csv'']
        \<lparr>resultados = [], todas_metricas = []\<rparr>) =
      todas_metricas \<lparr>resultados = [], todas_metricas = []\<rparr> @
        concat (map (metricas_do_arquivo env_ex feats_ex) [''curto.csv''])"
    by blast
  with m have sw: "todas_metricas (sweep env_ex feats_ex [''curto.csv'']
        \<lparr>resultados = [], todas_metricas = []\<rparr>) =
      map (linha_janela env_ex curto_preparado [''RSI''] ''curto.csv'') janelas_meses"
    by simp
  from t val curto_insuficiente [of 3]
  have "linha_janela env_ex curto_preparado [''RSI''] ''curto.csv'' 3 =
     \<lparr>Dataset = ''curto.csv'', Janela = formatar_nome_janela 3,
      ROC_AUC = None, Accuracy = None, F1_Score = None\<rparr>"
    by blast
  then have l3: "linha_janela env_ex curto_preparado [''RSI''] ''curto.csv'' 3 =
     \<lparr>Dataset = ''curto.csv'', Janela = ''3m'', ROC_AUC = None, Accuracy = None, F1_Score = None\<rparr>"
    by (simp add: formatar_nome_janela_def str_int_def str_nat_digit digit_char_def)
  from val ok sw l3 show ?thesis by (simp add: list_all_iff)
qed




end
